theory Spec2Isabelle
  imports Main
begin

section \<open>Python values and outcomes\<close>

text \<open>
  A call of the pipeline either returns a value, raises an exception, or never returns
  (a child process that never exits, run without a timeout).  An exception carries
  its class and the text that \<^verbatim>\<open>str(e)\<close> gives.
\<close>

datatype exn_kind =
  FileNotFoundError | TimeoutExpired | OSError | JSONDecodeError | TypeError
  | ValidationError | RuntimeError

datatype exn = Exn exn_kind string

datatype 'a outcome = Returns 'a | Raises exn | Hangs

fun exn_text :: "exn \<Rightarrow> string" where
  "exn_text (Exn k t) = t"

fun exn_class :: "exn \<Rightarrow> exn_kind" where
  "exn_class (Exn k t) = k"

text \<open>Sequencing: the second computation runs only when the first one returns.\<close>

fun and_then :: "'a outcome \<Rightarrow> ('a \<Rightarrow> 'b outcome) \<Rightarrow> 'b outcome" where
  "and_then (Returns x) f = f x"
| "and_then (Raises e) f = Raises e"
| "and_then Hangs f = Hangs"

text \<open>\<^verbatim>\<open>try: m except Exception as e: h(e)\<close> and \<^verbatim>\<open>except K as e: h(e)\<close> for one class K.\<close>

fun except_Exception :: "'a outcome \<Rightarrow> (exn \<Rightarrow> 'a outcome) \<Rightarrow> 'a outcome" where
  "except_Exception (Raises e) h = h e"
| "except_Exception (Returns x) h = Returns x"
| "except_Exception Hangs h = Hangs"

fun except_class :: "exn_kind \<Rightarrow> 'a outcome \<Rightarrow> (exn \<Rightarrow> 'a outcome) \<Rightarrow> 'a outcome" where
  "except_class k (Raises e) h = (if exn_class e = k then h e else Raises e)"
| "except_class k (Returns x) h = Returns x"
| "except_class k Hangs h = Hangs"

subsection \<open>Strings\<close>

text \<open>
  A Python \<^verbatim>\<open>str\<close> is a list of characters.  \<^verbatim>\<open>s.find(c)\<close> and
  \<^verbatim>\<open>s.rfind(c)\<close> for a one-character needle give the index or -1; \<^verbatim>\<open>s[i:j]\<close>
  clips its bounds and counts a negative bound from the end.
\<close>

fun find_from :: "char \<Rightarrow> string \<Rightarrow> nat \<Rightarrow> int" where
  "find_from c [] k = -1"
| "find_from c (x # xs) k = (if x = c then int k else find_from c xs (Suc k))"

definition str_find :: "string \<Rightarrow> char \<Rightarrow> int" where
  "str_find s c = find_from c s 0"

definition str_rfind :: "string \<Rightarrow> char \<Rightarrow> int" where
  "str_rfind s c =
     (let r = find_from c (rev s) 0 in if r < 0 then -1 else int (length s) - 1 - r)"

definition py_slice :: "'a list \<Rightarrow> int \<Rightarrow> int \<Rightarrow> 'a list" where
  "py_slice xs i j =
     (let n = int (length xs);
          lo = (if i < 0 then max 0 (n + i) else min i n);
          hi = (if j < 0 then max 0 (n + j) else min j n)
      in take (nat (hi - lo)) (drop (nat lo) xs))"

definition startswith :: "string \<Rightarrow> string \<Rightarrow> bool" where
  "startswith s p = (take (length p) s = p)"

definition endswith :: "string \<Rightarrow> string \<Rightarrow> bool" where
  "endswith s p = (length p \<le> length s \<and> drop (length s - length p) s = p)"

text \<open>\<^verbatim>\<open>needle in s\<close> for strings.\<close>

fun contains :: "string \<Rightarrow> string \<Rightarrow> bool" where
  "contains needle [] = (needle = [])"
| "contains needle (c # cs) = (startswith (c # cs) needle \<or> contains needle cs)"

text \<open>\<^verbatim>\<open>str(n)\<close> for an integer.\<close>

fun str_nat :: "nat \<Rightarrow> string" where
  "str_nat n =
     (if n < 10 then [char_of (48 + n)]
      else str_nat (n div 10) @ [char_of (48 + n mod 10)])"

declare str_nat.simps [simp del]

definition str_int :: "int \<Rightarrow> string" where
  "str_int i = (if i < 0 then CHR ''-'' # str_nat (nat (- i)) else str_nat (nat i))"

definition str_bool :: "bool \<Rightarrow> string" where
  "str_bool b = (if b then ''True'' else ''False'')"

section \<open>JSON values\<close>

text \<open>
  What \<^verbatim>\<open>json.loads\<close> returns.  An object keeps its members in the order of the
  text; a key that occurs twice has the value of its last occurrence, as in a Python
  dict.  A number with a fraction or an exponent is kept as its text.
\<close>

datatype json =
  JNull | JBool bool | JInt int | JFloat string | JStr string
  | JArr "json list" | JObj "(string \<times> json) list"

definition dict_get :: "(string \<times> json) list \<Rightarrow> string \<Rightarrow> json option" where
  "dict_get kvs k = map_of (rev kvs) k"

definition dict_has :: "(string \<times> json) list \<Rightarrow> string \<Rightarrow> bool" where
  "dict_has kvs k = (k \<in> set (map fst kvs))"

text \<open>\<^verbatim>\<open>d.get(k, default)\<close>.\<close>

definition dict_get_default :: "(string \<times> json) list \<Rightarrow> string \<Rightarrow> json \<Rightarrow> json" where
  "dict_get_default kvs k d = (case dict_get kvs k of Some v \<Rightarrow> v | None \<Rightarrow> d)"

text \<open>\<^verbatim>\<open>d[k] = v\<close>: an existing key keeps its place.\<close>

definition dict_set :: "(string \<times> json) list \<Rightarrow> string \<Rightarrow> json \<Rightarrow> (string \<times> json) list" where
  "dict_set kvs k v =
     (if dict_has kvs k then map (\<lambda>(k', v'). if k' = k then (k', v) else (k', v')) kvs
      else kvs @ [(k, v)])"

text \<open>Iterating over a value, as \<^verbatim>\<open>for x in v\<close> does: a list gives its items, a
  string its characters, a dict its keys; anything else is not iterable.\<close>

definition dict_keys :: "(string \<times> json) list \<Rightarrow> string list" where
  "dict_keys kvs = rev (remdups (rev (map fst kvs)))"

definition type_name :: "json \<Rightarrow> string" where
  "type_name v =
     (case v of JNull \<Rightarrow> ''NoneType'' | JBool b \<Rightarrow> ''bool'' | JInt i \<Rightarrow> ''int''
      | JFloat f \<Rightarrow> ''float'' | JStr s \<Rightarrow> ''str'' | JArr xs \<Rightarrow> ''list''
      | JObj kvs \<Rightarrow> ''dict'')"

definition iterate :: "json \<Rightarrow> json list outcome" where
  "iterate v =
     (case v of
        JArr xs \<Rightarrow> Returns xs
      | JStr s \<Rightarrow> Returns (map (\<lambda>c. JStr [c]) s)
      | JObj kvs \<Rightarrow> Returns (map JStr (dict_keys kvs))
      | _ \<Rightarrow> Raises (Exn TypeError
                 ([CHR 0x27] @ type_name v @ [CHR 0x27] @ '' object is not iterable'')))"

subsection \<open>A reference decoder\<close>

text \<open>
  \<^verbatim>\<open>json.loads\<close> belongs to Python's library, so the pipeline below takes it as a
  parameter.  To run the pipeline on concrete texts, \<open>json_decode\<close> decodes JSON
  as \<^verbatim>\<open>json.loads\<close> does on texts whose strings hold no \<^verbatim>\<open>\u\<close> escape:
  surrounding whitespace is skipped, text after the value is an error, and
  \<^verbatim>\<open>NaN\<close>, \<^verbatim>\<open>Infinity\<close> and \<^verbatim>\<open>-Infinity\<close> are accepted.  The first
  argument of the three mutually recursive functions bounds the length of a chain
  of calls; every call consumes a character, so the length of the text is enough.
\<close>

definition is_ws :: "char \<Rightarrow> bool" where
  "is_ws c = (c = CHR '' '' \<or> c = CHR 0x09 \<or> c = CHR ''\<newline>'' \<or> c = CHR 0x0D)"

definition is_digit :: "char \<Rightarrow> bool" where
  "is_digit c = (48 \<le> (of_char c :: nat) \<and> (of_char c :: nat) \<le> 57)"

definition skip_ws :: "string \<Rightarrow> string" where
  "skip_ws cs = dropWhile is_ws cs"

definition unescape :: "char \<Rightarrow> char option" where
  "unescape e =
     (if e = CHR 0x22 then Some (CHR 0x22)
      else if e = CHR 0x5C then Some (CHR 0x5C)
      else if e = CHR ''/'' then Some (CHR ''/'')
      else if e = CHR ''b'' then Some (CHR 0x08)
      else if e = CHR ''f'' then Some (CHR 0x0C)
      else if e = CHR ''n'' then Some (CHR ''\<newline>'')
      else if e = CHR ''r'' then Some (CHR 0x0D)
      else if e = CHR ''t'' then Some (CHR 0x09)
      else None)"

text \<open>The characters of a string literal after its opening quote, and the rest.\<close>

fun scan_string :: "string \<Rightarrow> (string \<times> string) option" where
  "scan_string [] = None"
| "scan_string [c] = (if c = CHR 0x22 then Some ([], []) else None)"
| "scan_string (c # e # cs) =
     (if c = CHR 0x22 then Some ([], e # cs)
      else if c = CHR 0x5C then
        (case unescape e of
           None \<Rightarrow> None
         | Some ch \<Rightarrow>
             (case scan_string cs of None \<Rightarrow> None | Some (s, r) \<Rightarrow> Some (ch # s, r)))
      else if (of_char c :: nat) < 32 then None
      else (case scan_string (e # cs) of None \<Rightarrow> None | Some (s, r) \<Rightarrow> Some (c # s, r)))"

definition digits_value :: "string \<Rightarrow> int" where
  "digits_value ds = foldl (\<lambda>a c. 10 * a + (int (of_char c) - 48)) 0 ds"

text \<open>A number: \<^verbatim>\<open>-?(0|[1-9][0-9]*)(\.[0-9]+)?([eE][-+]?[0-9]+)?\<close>, the longest match.\<close>

definition scan_number :: "string \<Rightarrow> (json \<times> string) option" where
  "scan_number cs =
     (let neg = (cs \<noteq> [] \<and> hd cs = CHR ''-'');
          r0 = (if neg then tl cs else cs);
          ip = (if r0 \<noteq> [] \<and> hd r0 = CHR ''0'' then ''0'' else takeWhile is_digit r0);
          r1 = drop (length ip) r0;
          fd = (if r1 \<noteq> [] \<and> hd r1 = CHR ''.'' then takeWhile is_digit (tl r1) else []);
          fp = (if fd = [] then [] else CHR ''.'' # fd);
          r2 = drop (length fp) r1;
          sg = (if r2 \<noteq> [] \<and> (hd r2 = CHR ''e'' \<or> hd r2 = CHR ''E'') then
                  (if tl r2 \<noteq> [] \<and> (hd (tl r2) = CHR ''+'' \<or> hd (tl r2) = CHR ''-'')
                   then [hd r2, hd (tl r2)] else [hd r2])
                else []);
          ed = (if sg = [] then [] else takeWhile is_digit (drop (length sg) r2));
          ep = (if ed = [] then [] else sg @ ed);
          r3 = drop (length ep) r2
      in if ip = [] then None
         else if fp = [] \<and> ep = [] then
           Some (JInt (if neg then - digits_value ip else digits_value ip), r3)
         else Some (JFloat ((if neg then ''-'' else []) @ ip @ fp @ ep), r3))"

definition scan_atom :: "string \<Rightarrow> (json \<times> string) option" where
  "scan_atom cs =
     (if startswith cs ''null'' then Some (JNull, drop 4 cs)
      else if startswith cs ''true'' then Some (JBool True, drop 4 cs)
      else if startswith cs ''false'' then Some (JBool False, drop 5 cs)
      else if startswith cs ''NaN'' then Some (JFloat ''nan'', drop 3 cs)
      else if startswith cs ''Infinity'' then Some (JFloat ''inf'', drop 8 cs)
      else if startswith cs ''-Infinity'' then Some (JFloat ''-inf'', drop 9 cs)
      else scan_number cs)"

fun parse_value :: "nat \<Rightarrow> string \<Rightarrow> (json \<times> string) option"
  and parse_items :: "nat \<Rightarrow> string \<Rightarrow> (json list \<times> string) option"
  and parse_pairs :: "nat \<Rightarrow> string \<Rightarrow> ((string \<times> json) list \<times> string) option"
where
  "parse_value 0 cs = None"
| "parse_value (Suc n) cs =
     (case cs of
        [] \<Rightarrow> None
      | c # r \<Rightarrow>
          if c = CHR 0x7B then
            (case skip_ws r of
               [] \<Rightarrow> None
             | d # r' \<Rightarrow>
                 if d = CHR 0x7D then Some (JObj [], r')
                 else (case parse_pairs n (d # r') of
                         None \<Rightarrow> None
                       | Some (kvs, r'') \<Rightarrow> Some (JObj kvs, r'')))
          else if c = CHR ''['' then
            (case skip_ws r of
               [] \<Rightarrow> None
             | d # r' \<Rightarrow>
                 if d = CHR '']'' then Some (JArr [], r')
                 else (case parse_items n (d # r') of
                         None \<Rightarrow> None
                       | Some (vs, r'') \<Rightarrow> Some (JArr vs, r'')))
          else if c = CHR 0x22 then
            (case scan_string r of None \<Rightarrow> None | Some (s, r') \<Rightarrow> Some (JStr s, r'))
          else scan_atom cs)"
| "parse_items 0 cs = None"
| "parse_items (Suc n) cs =
     (case parse_value n (skip_ws cs) of
        None \<Rightarrow> None
      | Some (v, r) \<Rightarrow>
          (case skip_ws r of
             [] \<Rightarrow> None
           | c # r' \<Rightarrow>
               if c = CHR '','' then
                 (case parse_items n r' of
                    None \<Rightarrow> None
                  | Some (vs, r'') \<Rightarrow> Some (v # vs, r''))
               else if c = CHR '']'' then Some ([v], r')
               else None))"
| "parse_pairs 0 cs = None"
| "parse_pairs (Suc n) cs =
     (case skip_ws cs of
        [] \<Rightarrow> None
      | q # r \<Rightarrow>
          if q \<noteq> CHR 0x22 then None
          else
            (case scan_string r of
               None \<Rightarrow> None
             | Some (k, r1) \<Rightarrow>
                 (case skip_ws r1 of
                    [] \<Rightarrow> None
                  | col # r2 \<Rightarrow>
                      if col \<noteq> CHR '':'' then None
                      else
                        (case parse_value n (skip_ws r2) of
                           None \<Rightarrow> None
                         | Some (v, r3) \<Rightarrow>
                             (case skip_ws r3 of
                                [] \<Rightarrow> None
                              | c # r4 \<Rightarrow>
                                  if c = CHR '','' then
                                    (case parse_pairs n r4 of
                                       None \<Rightarrow> None
                                     | Some (kvs, r5) \<Rightarrow> Some ((k, v) # kvs, r5))
                                  else if c = CHR 0x7D then Some ([(k, v)], r4)
                                  else None)))))"

definition json_decode :: "string \<Rightarrow> json option" where
  "json_decode s =
     (case parse_value (Suc (length s)) (skip_ws s) of
        None \<Rightarrow> None
      | Some (v, r) \<Rightarrow> if skip_ws r = [] then Some v else None)"

section \<open>The pipeline state and its surroundings\<close>

text \<open>
  \<^verbatim>\<open>BuildState\<close> (state.py).  The session of the interactive mode (sessions.py)
  creates a state without the key \<^verbatim>\<open>dev_attempts\<close>, and the code reads it with
  \<^verbatim>\<open>state.get("dev_attempts", 0)\<close>, so that key may be absent.
\<close>

record task =
  task_id :: string
  title :: string

record BuildState =
  request :: string
  repo_path :: string
  prd :: string
  rfc :: string
  tasks :: "task list"
  branch :: string
  lint_ok :: bool
  tests_ok :: bool
  sec_ok :: bool
  pr_url :: string
  dev_attempts :: "int option"
  logs :: "string list"

text \<open>\<^verbatim>\<open>state.get("dev_attempts", 0)\<close>.\<close>

definition get_dev_attempts :: "BuildState \<Rightarrow> int" where
  "get_dev_attempts state = (case dev_attempts state of Some n \<Rightarrow> n | None \<Rightarrow> 0)"

text \<open>The state main.py starts a run with.\<close>

definition initial :: "string \<Rightarrow> string \<Rightarrow> BuildState" where
  "initial req path =
     \<lparr>request = req, repo_path = path, prd = [], rfc = [], tasks = [], branch = [],
      lint_ok = False, tests_ok = False, sec_ok = False, pr_url = [],
      dev_attempts = Some 0, logs = []\<rparr>"

text \<open>
  A directory tree: a file has a name and what reading it as UTF-8 text gives (its
  text, or the message of the exception \<^verbatim>\<open>open\<close> or \<^verbatim>\<open>read\<close> raises).
\<close>

datatype content = Text string | Unreadable string

datatype entry = File string content | Dir string "entry list"

text \<open>
  What a child process does: it exits after some seconds with a return code, its
  standard output and its standard error; or it never exits; or it cannot be started
  (\<^verbatim>\<open>subprocess.run\<close> raises, \<^verbatim>\<open>FileNotFoundError\<close> when the program is missing).
\<close>

datatype proc = Exits nat int string string | Never_exits | Not_started exn

text \<open>
  Everything outside the repository's code is a parameter of the model: Python's
  library (\<^verbatim>\<open>json.loads\<close>, the text of its errors, \<^verbatim>\<open>str\<close> of a float or a
  container, the messages of \<^verbatim>\<open>TypeError\<close> and pydantic's validation error), the
  text-generation backend behind \<^verbatim>\<open>make_chat\<close> (tools/hf.py) for each purpose, the
  operating system (child processes by argument vector and working directory, the
  files under a directory, \<^verbatim>\<open>os.path.exists\<close>), and the parts of the steps that only
  write files and log lines.  A theorem that holds for every \<open>world\<close> holds whatever
  these do.  One \<open>world\<close> is what one step execution sees.
\<close>

record world =
  json_loads :: "string \<Rightarrow> json option"
  json_error :: "string \<Rightarrow> string"
  py_repr :: "json \<Rightarrow> string"
  error_text :: "exn_kind \<Rightarrow> json \<Rightarrow> string"
  chat_planning :: "string \<Rightarrow> string outcome"
  chat_router :: "string \<Rightarrow> string \<Rightarrow> string outcome"
  chat_architecture :: "string \<Rightarrow> string \<Rightarrow> string outcome"
  summarize_repo :: "string \<Rightarrow> string outcome"
  write_artifact :: "string \<Rightarrow> string \<Rightarrow> string \<Rightarrow> unit outcome"
  proc_of :: "string list \<Rightarrow> string \<Rightarrow> proc"
  timeout_text :: "string list \<Rightarrow> nat \<Rightarrow> string"
  path_exists :: "string \<Rightarrow> bool"
  tree_of :: "string \<Rightarrow> entry list"
  dev_work :: "BuildState \<Rightarrow> string list outcome"
  pr_work :: "BuildState \<Rightarrow> (string \<times> string \<times> string list) outcome"

text \<open>\<^verbatim>\<open>str(v)\<close> of a decoded value.\<close>

definition py_str :: "world \<Rightarrow> json \<Rightarrow> string" where
  "py_str w v =
     (case v of
        JStr s \<Rightarrow> s
      | JInt i \<Rightarrow> str_int i
      | JBool b \<Rightarrow> str_bool b
      | JNull \<Rightarrow> ''None''
      | _ \<Rightarrow> py_repr w v)"

section \<open>The planner step (agents/planner.py)\<close>

text \<open>The dict both fallback branches of \<^verbatim>\<open>planner_node\<close> build.\<close>

definition fallback_data :: "string \<Rightarrow> json" where
  "fallback_data req =
     JObj [(''prd_md'', JStr (''# PRD\<newline>\<newline>Request: '' @ req @
              ''\<newline>\<newline>## Goal\<newline>Implement the requested feature.\<newline>\<newline>## Acceptance Criteria\<newline>- Feature implemented\<newline>- Tests pass\<newline>- Code follows standards'')),
           (''tasks'', JArr
              [JObj [(''id'', JStr ''task1''), (''title'', JStr ''Implement feature'')],
               JObj [(''id'', JStr ''task2''), (''title'', JStr ''Add tests'')],
               JObj [(''id'', JStr ''task3''), (''title'', JStr ''Update documentation'')]])]"

text \<open>
  Lines 56 to 89: the decoded data and the log lines written on the way.  The whole
  text is decoded first; when that raises, the text from the first \<^verbatim>\<open>{\<close> to the last
  \<^verbatim>\<open>}\<close> is decoded; when there is no brace or that raises too, the fallback is used.
\<close>

definition planner_parse :: "world \<Rightarrow> string \<Rightarrow> string \<Rightarrow> json \<times> string list" where
  "planner_parse w req raw =
     (case json_loads w raw of
        Some data \<Rightarrow> (data, [])
      | None \<Rightarrow>
          (let start = str_find raw (CHR 0x7B);
               stop = str_rfind raw (CHR 0x7D) + 1;
               l1 = [''JSON parse error: '' @ json_error w raw]
           in if start = -1 \<or> stop = 0 then
                (fallback_data req, l1 @ [''No JSON found, creating fallback response''])
              else
                (let extracted = py_slice raw start stop;
                     l2 = l1 @ [''Extracted JSON: '' @ take 200 extracted @ ''...'']
                 in case json_loads w extracted of
                      Some data \<Rightarrow> (data, l2)
                    | None \<Rightarrow>
                        (fallback_data req,
                         l2 @ [''Extracted JSON parse error: '' @ json_error w extracted]))))"

text \<open>
  Lines 92 to 101, the loop over \<^verbatim>\<open>data['tasks']\<close>: an item that is a dict gives an
  entry, its id \<^verbatim>\<open>str(task.get('task_id', task.get('id', f"task{len(converted_tasks)+1}")))\<close>;
  any other item is skipped.
\<close>

definition convert_task :: "world \<Rightarrow> (string \<times> json) list \<Rightarrow> nat \<Rightarrow> json" where
  "convert_task w t n =
     JObj [(''id'', JStr (py_str w
              (dict_get_default t ''task_id''
                 (dict_get_default t ''id'' (JStr (''task'' @ str_nat (n + 1))))))),
           (''title'',
              dict_get_default t ''task_desc''
                (dict_get_default t ''title'' (JStr ''Untitled task'')))]"

fun convert_tasks :: "world \<Rightarrow> json list \<Rightarrow> json list \<Rightarrow> json list" where
  "convert_tasks w [] converted_tasks = converted_tasks"
| "convert_tasks w (JObj t # ts) converted_tasks =
     convert_tasks w ts (converted_tasks @ [convert_task w t (length converted_tasks)])"
| "convert_tasks w (other # ts) converted_tasks = convert_tasks w ts converted_tasks"

text \<open>
  \<^verbatim>\<open>Task\<close> and \<^verbatim>\<open>PlannerOut\<close> as pydantic (version 2, whose
  \<^verbatim>\<open>model_validate\<close> the file overrides) validates them: a \<^verbatim>\<open>str\<close> field takes a
  string only, a required field must be there, other keys are ignored.
\<close>

definition validate_Task :: "json \<Rightarrow> task option" where
  "validate_Task v =
     (case v of
        JObj kvs \<Rightarrow>
          (case (dict_get kvs ''id'', dict_get kvs ''title'') of
             (Some (JStr i), Some (JStr t)) \<Rightarrow> Some \<lparr>task_id = i, title = t\<rparr>
           | _ \<Rightarrow> None)
      | _ \<Rightarrow> None)"

definition validate_PlannerOut :: "(string \<times> json) list \<Rightarrow> (string \<times> task list) option" where
  "validate_PlannerOut kvs =
     (case (dict_get kvs ''prd_md'', dict_get kvs ''tasks'') of
        (Some (JStr p), Some (JArr ts)) \<Rightarrow>
          (case those (map validate_Task ts) of None \<Rightarrow> None | Some ok \<Rightarrow> Some (p, ok))
      | _ \<Rightarrow> None)"

text \<open>
  Lines 91 to 105 on the decoded data.  Data that is not a dict ends in a
  \<^verbatim>\<open>TypeError\<close> (from \<^verbatim>\<open>'tasks' in data\<close>, from \<^verbatim>\<open>data['tasks']\<close> or from
  \<^verbatim>\<open>PlannerOut(**data)\<close>).
\<close>

definition planner_finish :: "world \<Rightarrow> BuildState \<Rightarrow> json \<Rightarrow> BuildState outcome" where
  "planner_finish w state data =
     (case data of
        JObj kvs \<Rightarrow>
          and_then
            (if dict_has kvs ''tasks'' then
               and_then (iterate (the (dict_get kvs ''tasks'')))
                 (\<lambda>items. Returns (dict_set kvs ''tasks'' (JArr (convert_tasks w items []))))
             else Returns kvs)
            (\<lambda>kvs'.
               case validate_PlannerOut kvs' of
                 None \<Rightarrow> Raises (Exn ValidationError (error_text w ValidationError (JObj kvs')))
               | Some (p, ts) \<Rightarrow>
                   Returns (state\<lparr>prd := p, tasks := ts,
                                  logs := logs state @ [''Planner: PRD+tasks created'']\<rparr>))
      | _ \<Rightarrow> Raises (Exn TypeError (error_text w TypeError data)))"

definition planner_node :: "world \<Rightarrow> BuildState \<Rightarrow> BuildState outcome" where
  "planner_node w state =
     and_then (chat_planning w (request state))
       (\<lambda>raw.
          let (data, ls) = planner_parse w (request state) raw
          in planner_finish w
               (state\<lparr>logs := logs state
                   @ [''Planner raw response: '' @ take 200 raw @ ''...''] @ ls\<rparr>)
               data)"

section \<open>The intent router (agents/router.py)\<close>

record RouteOut =
  intent :: string
  args :: "(string \<times> json) list"




text \<open>Lines 44 to 48: the second \<^verbatim>\<open>json.loads\<close> stands in the \<^verbatim>\<open>except\<close> block,
  with no handler of its own and no test of \<^verbatim>\<open>find\<close>'s result.\<close>

definition route_parse :: "world \<Rightarrow> string \<Rightarrow> json outcome" where
  "route_parse w raw =
     (case json_loads w raw of
        Some data \<Rightarrow> Returns data
      | None \<Rightarrow>
          (let start = str_find raw (CHR 0x7B);
               stop = str_rfind raw (CHR 0x7D) + 1;
               extracted = py_slice raw start stop
           in case json_loads w extracted of
                Some data \<Rightarrow> Returns data
              | None \<Rightarrow> Raises (Exn JSONDecodeError (json_error w extracted))))"


subsection \<open>What the conversion loop computes\<close>

text \<open>The items of the task list that are dicts, in order: the loop skips the rest.\<close>

fun dict_items :: "json list \<Rightarrow> (string \<times> json) list list" where
  "dict_items [] = []"
| "dict_items (JObj t # ts) = t # dict_items ts"
| "dict_items (other # ts) = dict_items ts"

text \<open>
  The id the loop gives the dict \<open>t\<close> when \<open>k\<close> entries were converted before it:
  \<^verbatim>\<open>task_id\<close> when the dict has that key, else \<^verbatim>\<open>id\<close>, each through \<^verbatim>\<open>str\<close>;
  else \<^verbatim>\<open>task\<close> followed by \<open>k + 1\<close>.
\<close>

definition supplied_id :: "world \<Rightarrow> (string \<times> json) list \<Rightarrow> nat \<Rightarrow> string" where
  "supplied_id w t k =
     (case dict_get t ''task_id'' of
        Some v \<Rightarrow> py_str w v
      | None \<Rightarrow> (case dict_get t ''id'' of
                   Some v \<Rightarrow> py_str w v
                 | None \<Rightarrow> ''task'' @ str_nat (k + 1)))"

text \<open>The requirements text and the three tasks of the planner's fallback.\<close>

definition fallback_prd :: "string \<Rightarrow> string" where
  "fallback_prd req = ''# PRD\<newline>\<newline>Request: '' @ req @
              ''\<newline>\<newline>## Goal\<newline>Implement the requested feature.\<newline>\<newline>## Acceptance Criteria\<newline>- Feature implemented\<newline>- Tests pass\<newline>- Code follows standards''"

definition fallback_tasks :: "task list" where
  "fallback_tasks =
     [\<lparr>task_id = ''task1'', title = ''Implement feature''\<rparr>,
      \<lparr>task_id = ''task2'', title = ''Add tests''\<rparr>,
      \<lparr>task_id = ''task3'', title = ''Update documentation''\<rparr>]"


section \<open>The project analyzer (tools/language_detector.py)\<close>

text \<open>
  A path relative to the repository is kept as the list of its names; \<open>path_str\<close>
  joins them with \<^verbatim>\<open>/\<close>, which is the string the code handles
  (\<^verbatim>\<open>os.path.relpath(os.path.join(root, filename), repo_path)\<close>).
\<close>

type_synonym path = "string list"

fun path_str :: "path \<Rightarrow> string" where
  "path_str [] = []"
| "path_str [n] = n"
| "path_str (n # m # ns) = n @ ''/'' @ path_str (m # ns)"

definition ignore_dirs :: "string list" where
  "ignore_dirs =
     [''.git'', ''.svn'', ''.hg'',
      ''node_modules'', ''__pycache__'', ''.pytest_cache'',
      ''venv'', ''env'', ''.venv'', ''.env'',
      ''target'', ''build'', ''dist'', ''out'',
      ''bin'', ''obj'', ''.vs'', ''.vscode'',
      ''.idea'', ''.gradle'', ''.maven'']"

definition ignore_files :: "string list" where
  "ignore_files =
     [''.DS_Store'', ''Thumbs.db'', ''.gitignore'',
      ''.env'', ''.env.local'', ''.env.production'']"

text \<open>
  \<^verbatim>\<open>os.walk\<close> with the pruning of \<^verbatim>\<open>list_all_files\<close>: the files of a directory
  first, then its subdirectories in order, those with an ignored name left out.
\<close>

fun own_files :: "path \<Rightarrow> entry list \<Rightarrow> path list" where
  "own_files pre [] = []"
| "own_files pre (File n c # es) =
     (if n \<in> set ignore_files then own_files pre es else (pre @ [n]) # own_files pre es)"
| "own_files pre (Dir n cs # es) = own_files pre es"

fun walk :: "path \<Rightarrow> entry list \<Rightarrow> path list"
  and walk_subdirs :: "path \<Rightarrow> entry list \<Rightarrow> path list"
where
  "walk pre es = own_files pre es @ walk_subdirs pre es"
| "walk_subdirs pre [] = []"
| "walk_subdirs pre (File n c # es) = walk_subdirs pre es"
| "walk_subdirs pre (Dir n cs # es) =
     (if n \<in> set ignore_dirs then walk_subdirs pre es
      else walk (pre @ [n]) cs @ walk_subdirs pre es)"

definition list_all_files :: "world \<Rightarrow> string \<Rightarrow> path list" where
  "list_all_files w repo = walk [] (tree_of w repo)"

text \<open>Opening a listed path: the file of that name in the directory the path leads to.\<close>

fun find_file :: "string \<Rightarrow> entry list \<Rightarrow> content option" where
  "find_file n [] = None"
| "find_file n (File m c # es) = (if m = n then Some c else find_file n es)"
| "find_file n (Dir m cs # es) = find_file n es"

fun find_dir :: "string \<Rightarrow> entry list \<Rightarrow> entry list option" where
  "find_dir n [] = None"
| "find_dir n (Dir m cs # es) = (if m = n then Some cs else find_dir n es)"
| "find_dir n (File m c # es) = find_dir n es"

fun lookup :: "entry list \<Rightarrow> path \<Rightarrow> content option" where
  "lookup es [] = None"
| "lookup es [n] = find_file n es"
| "lookup es (n # m # p) =
     (case find_dir n es of None \<Rightarrow> None | Some cs \<Rightarrow> lookup cs (m # p))"

text \<open>\<^verbatim>\<open>read_file_content\<close> (tools/file_operations.py): a missing file reads as the
  empty text, any other failure as a text that starts \<^verbatim>\<open>Error reading file\<close>.\<close>

definition read_file_content :: "world \<Rightarrow> string \<Rightarrow> path \<Rightarrow> string" where
  "read_file_content w repo file_path =
     (case lookup (tree_of w repo) file_path of
        None \<Rightarrow> []
      | Some (Text t) \<Rightarrow> t
      | Some (Unreadable e) \<Rightarrow> ''Error reading file: '' @ e)"

subsection \<open>Names and extensions\<close>

definition lower_char :: "char \<Rightarrow> char" where
  "lower_char c =
     (if 65 \<le> (of_char c :: nat) \<and> (of_char c :: nat) \<le> 90
      then char_of ((of_char c :: nat) + 32) else c)"

text \<open>\<^verbatim>\<open>s.lower()\<close> on ASCII letters.\<close>

definition str_lower :: "string \<Rightarrow> string" where
  "str_lower s = map lower_char s"

text \<open>\<^verbatim>\<open>os.path.basename\<close> and the second part of \<^verbatim>\<open>os.path.splitext\<close>: the text
  from the last dot of the last name, unless only dots stand before it.\<close>

definition basename :: "string \<Rightarrow> string" where
  "basename p = drop (nat (str_rfind p (CHR ''/'') + 1)) p"

definition splitext_ext :: "string \<Rightarrow> string" where
  "splitext_ext p =
     (let sepIndex = str_rfind p (CHR ''/'');
          dotIndex = str_rfind p (CHR ''.'')
      in if dotIndex > sepIndex
            \<and> list_ex (\<lambda>c. c \<noteq> CHR ''.'') (py_slice p (sepIndex + 1) dotIndex)
         then drop (nat dotIndex) p else [])"

definition get_file_extension :: "string \<Rightarrow> string" where
  "get_file_extension file_path = str_lower (splitext_ext file_path)"

definition extension_map :: "(string \<times> string) list" where
  "extension_map =
     [(''.py'', ''python''),
      (''.js'', ''javascript''),
      (''.mjs'', ''javascript''),
      (''.ts'', ''typescript''),
      (''.tsx'', ''typescript''),
      (''.jsx'', ''javascript''),
      (''.cs'', ''csharp''),
      (''.vb'', ''vb.net''),
      (''.fs'', ''fsharp''),
      (''.java'', ''java''),
      (''.kt'', ''kotlin''),
      (''.scala'', ''scala''),
      (''.go'', ''go''),
      (''.rs'', ''rust''),
      (''.php'', ''php''),
      (''.rb'', ''ruby''),
      (''.swift'', ''swift''),
      (''.m'', ''objective-c''),
      (''.mm'', ''objective-c++''),
      (''.cpp'', ''cpp''),
      (''.cc'', ''cpp''),
      (''.cxx'', ''cpp''),
      (''.c'', ''c''),
      (''.h'', ''c''),
      (''.hpp'', ''cpp''),
      (''.dart'', ''dart''),
      (''.r'', ''r''),
      (''.jl'', ''julia''),
      (''.ex'', ''elixir''),
      (''.exs'', ''elixir''),
      (''.clj'', ''clojure''),
      (''.hs'', ''haskell''),
      (''.ml'', ''ocaml''),
      (''.fs'', ''fsharp''),
      (''.pl'', ''perl''),
      (''.sh'', ''bash''),
      (''.ps1'', ''powershell'')]"

definition extension_to_language :: "string \<Rightarrow> string option" where
  "extension_to_language ext = map_of extension_map ext"

subsection \<open>The structure dict and the passes that fill it\<close>

record project_structure =
  primary_language :: string
  secondary_languages :: "string list"
  project_type :: string
  frameworks :: "string list"
  build_tools :: "string list"
  package_managers :: "string list"
  config_files :: "string list"
  source_files :: "string list"
  test_files :: "string list"
  documentation_files :: "string list"
  has_tests :: bool
  entry_points :: "string list"

definition empty_structure :: project_structure where
  "empty_structure =
     \<lparr>primary_language = ''unknown'', secondary_languages = [], project_type = ''unknown'',
      frameworks = [], build_tools = [], package_managers = [], config_files = [],
      source_files = [], test_files = [], documentation_files = [], has_tests = False,
      entry_points = []\<rparr>"

text \<open>\<^verbatim>\<open>language_counts[lang] = language_counts.get(lang, 0) + 1\<close>, the dict in the
  order its keys were first set.\<close>

fun bump :: "string \<Rightarrow> (string \<times> nat) list \<Rightarrow> (string \<times> nat) list" where
  "bump k [] = [(k, 1)]"
| "bump k ((k', n) # kvs) = (if k' = k then (k', n + 1) # kvs else (k', n) # bump k kvs)"

text \<open>Lines 97 to 104: the counts and the source files.\<close>

definition count_languages :: "path list \<Rightarrow> (string \<times> nat) list \<times> string list" where
  "count_languages files =
     foldl (\<lambda>(counts, srcs) file_path.
              case extension_to_language (get_file_extension (path_str file_path)) of
                None \<Rightarrow> (counts, srcs)
              | Some lang \<Rightarrow>
                  if lang = [] then (counts, srcs)
                  else (bump lang counts, srcs @ [path_str file_path]))
       ([], []) files"

text \<open>\<^verbatim>\<open>max(language_counts, key=language_counts.get)\<close>: the first key, in the dict's
  order, whose count is the greatest.\<close>

definition max_key :: "(string \<times> nat) list \<Rightarrow> string" where
  "max_key counts =
     (case counts of
        [] \<Rightarrow> []
      | kn # rest \<Rightarrow>
          fst (foldl (\<lambda>(bk, bn) (k, n). if n > bn then (k, n) else (bk, bn)) kn rest))"

definition config_patterns :: "(string \<times> string \<times> string) list" where
  "config_patterns =
     [(''requirements.txt'', ''python'', ''pip''),
      (''pyproject.toml'', ''python'', ''poetry/setuptools''),
      (''setup.py'', ''python'', ''setuptools''),
      (''Pipfile'', ''python'', ''pipenv''),
      (''poetry.lock'', ''python'', ''poetry''),
      (''package.json'', ''javascript'', ''npm/yarn''),
      (''yarn.lock'', ''javascript'', ''yarn''),
      (''package-lock.json'', ''javascript'', ''npm''),
      (''tsconfig.json'', ''typescript'', ''tsc''),
      (''webpack.config.js'', ''javascript'', ''webpack''),
      (''vite.config.js'', ''javascript'', ''vite''),
      (''next.config.js'', ''javascript'', ''next.js''),
      (''*.csproj'', ''csharp'', ''dotnet''),
      (''*.vbproj'', ''vb.net'', ''dotnet''),
      (''*.fsproj'', ''fsharp'', ''dotnet''),
      (''*.sln'', ''csharp'', ''dotnet''),
      (''global.json'', ''csharp'', ''dotnet''),
      (''pom.xml'', ''java'', ''maven''),
      (''build.gradle'', ''java'', ''gradle''),
      (''build.gradle.kts'', ''kotlin'', ''gradle''),
      (''go.mod'', ''go'', ''go modules''),
      (''go.sum'', ''go'', ''go modules''),
      (''Cargo.toml'', ''rust'', ''cargo''),
      (''Cargo.lock'', ''rust'', ''cargo''),
      (''composer.json'', ''php'', ''composer''),
      (''composer.lock'', ''php'', ''composer''),
      (''Gemfile'', ''ruby'', ''bundler''),
      (''Gemfile.lock'', ''ruby'', ''bundler''),
      (''Dockerfile'', ''docker'', ''docker''),
      (''docker-compose.yml'', ''docker'', ''docker-compose''),
      (''Makefile'', ''make'', ''make''),
      (''CMakeLists.txt'', ''cpp'', ''cmake'')]"

text \<open>\<^verbatim>\<open>if x not in xs: xs.append(x)\<close>.\<close>

definition append_new :: "string \<Rightarrow> string list \<Rightarrow> string list" where
  "append_new x xs = (if x \<in> set xs then xs else xs @ [x])"

definition add_config :: "string \<Rightarrow> string \<Rightarrow> project_structure \<Rightarrow> project_structure" where
  "add_config file_path tool st =
     st\<lparr>config_files := config_files st @ [file_path],
        build_tools := append_new tool (build_tools st)\<rparr>"

text \<open>One round of the loop of \<^verbatim>\<open>analyze_config_files\<close>: the exact match, then
  every pattern with a star against the end of the file name.\<close>

definition config_step :: "project_structure \<Rightarrow> path \<Rightarrow> project_structure" where
  "config_step st file_path =
     (let filename = basename (path_str file_path);
          st1 = (case map_of config_patterns filename of
                   Some (lang, tool) \<Rightarrow> add_config (path_str file_path) tool st
                 | None \<Rightarrow> st)
      in foldl (\<lambda>s (pattern, lang, tool).
                  if CHR ''*'' \<in> set pattern
                     \<and> endswith filename (filter (\<lambda>c. c \<noteq> CHR ''*'') pattern)
                  then add_config (path_str file_path) tool s else s)
           st1 config_patterns)"

definition analyze_config_files ::
  "string \<Rightarrow> path list \<Rightarrow> project_structure \<Rightarrow> project_structure" where
  "analyze_config_files repo files st = foldl config_step st files"

definition framework_patterns :: "(string \<times> (string \<times> string list) list) list" where
  \<open>framework_patterns =
     [(''python'',
        [(''fastapi'', [''from fastapi'', ''import fastapi'', ''FastAPI()'']),
         (''flask'', [''from flask'', ''import flask'', ''Flask(__name__)'']),
         (''django'', [''django.'', ''DJANGO_SETTINGS_MODULE'', ''manage.py'']),
         (''pytest'', [''import pytest'', ''def test_'', ''@pytest.''])]),
      (''javascript'',
        [(''react'', [''import React'', ''from "react"'', ''React.Component'']),
         (''vue'', [''import Vue'', ''from "vue"'', ''<template>'']),
         (''angular'', [''@angular/'', ''@Component'', ''@Injectable'']),
         (''express'', [''require("express")'', ''import express'', ''express()'']),
         (''next'', [''next/'', ''from "next"'', ''getServerSideProps''])]),
      (''csharp'',
        [(''asp.net'', [''using Microsoft.AspNetCore'', ''[ApiController]'', ''WebApplication.'']),
         (''blazor'', [''@page'', ''@code'', ''ComponentBase'']),
         (''mvc'', [''Controller'', ''ActionResult'', ''ViewResult''])]),
      (''java'',
        [(''spring'', [''@SpringBootApplication'', ''@RestController'', ''@Service'']),
         (''springboot'', [''@SpringBootApplication'', ''SpringApplication.run''])])]\<close>

definition get_source_extensions :: "string \<Rightarrow> string list" where
  "get_source_extensions language =
     (case map_of
        [(''python'', [''.py'']),
         (''javascript'', [''.js'', ''.mjs'', ''.jsx'']),
         (''typescript'', [''.ts'', ''.tsx'']),
         (''csharp'', [''.cs'']),
         (''java'', [''.java'']),
         (''go'', [''.go'']),
         (''rust'', [''.rs'']),
         (''php'', [''.php'']),
         (''ruby'', [''.rb''])] language of
        Some exts \<Rightarrow> exts
      | None \<Rightarrow> [])"

text \<open>The inner loop of \<^verbatim>\<open>detect_frameworks_and_type\<close> for one file's content.\<close>

definition match_frameworks ::
  "(string \<times> string list) list \<Rightarrow> string \<Rightarrow> project_structure \<Rightarrow> project_structure" where
  "match_frameworks table file_text st =
     foldl (\<lambda>s (framework, patterns).
              if list_ex (\<lambda>pattern. contains pattern file_text) patterns
              then s\<lparr>frameworks := append_new framework (frameworks s)\<rparr> else s)
       st table"

definition detect_frameworks_and_type ::
  "world \<Rightarrow> string \<Rightarrow> path list \<Rightarrow> project_structure \<Rightarrow> project_structure" where
  "detect_frameworks_and_type w repo files st =
     (let language = primary_language st
      in case map_of framework_patterns language of
           None \<Rightarrow> st
         | Some table \<Rightarrow>
             foldl (\<lambda>s file_path.
                      if list_ex (endswith (path_str file_path)) (get_source_extensions language)
                      then match_frameworks table (read_file_content w repo file_path) s
                      else s)
               st files)"

definition entry_patterns :: "string list" where
  "entry_patterns =
     [''main.py'', ''app.py'', ''server.py'', ''run.py'', ''__main__.py'',
      ''index.js'', ''server.js'', ''app.js'', ''main.js'',
      ''index.ts'', ''server.ts'', ''app.ts'', ''main.ts'',
      ''Program.cs'', ''Startup.cs'', ''Main.cs'',
      ''Main.java'', ''Application.java'',
      ''main.go'', ''server.go'', ''app.go'',
      ''main.rs'', ''lib.rs'', ''server.rs'',
      ''index.php'', ''app.php'', ''server.php'']"

definition find_entry_points :: "path list \<Rightarrow> project_structure \<Rightarrow> project_structure" where
  "find_entry_points files st =
     foldl (\<lambda>s file_path.
              if basename (path_str file_path) \<in> set entry_patterns
              then s\<lparr>entry_points := entry_points s @ [path_str file_path]\<rparr> else s)
       st files"

definition test_patterns :: "string list" where
  "test_patterns =
     [''test_'', ''_test.'', ''.test.'', ''.spec.'',
      ''/test/'', ''/tests/'', ''__tests__/'',
      ''Test.cs'', ''Tests.cs'', ''Test.java'']"

definition find_test_files :: "path list \<Rightarrow> project_structure \<Rightarrow> project_structure" where
  "find_test_files files st =
     (let st' = foldl (\<lambda>s file_path.
                   if list_ex (\<lambda>pattern. contains pattern (path_str file_path)) test_patterns
                   then s\<lparr>test_files := test_files s @ [path_str file_path]\<rparr> else s)
                  st files
      in st'\<lparr>has_tests := (length (test_files st') > 0)\<rparr>)"

definition analyze_project_structure :: "world \<Rightarrow> string \<Rightarrow> project_structure" where
  "analyze_project_structure w repo =
     (let files = list_all_files w repo;
          (language_counts, srcs) = count_languages files;
          st0 = empty_structure\<lparr>source_files := srcs\<rparr>;
          st1 = (if language_counts \<noteq> [] then
                   st0\<lparr>primary_language := max_key language_counts,
                       secondary_languages :=
                         filter (\<lambda>lang. lang \<noteq> max_key language_counts)
                           (map fst language_counts)\<rparr>
                 else st0);
          st2 = analyze_config_files repo files st1;
          st3 = detect_frameworks_and_type w repo files st2;
          st4 = find_entry_points files st3
      in find_test_files files st4)"


subsection \<open>Trees that differ only inside ignored directories\<close>


text \<open>Two such trees: a Go module whose \<^verbatim>\<open>node_modules\<close> folder is nearly empty in
  the one and full of JavaScript in the other.\<close>

definition go_tree_a :: "entry list" where
  "go_tree_a =
     [File ''main.go'' (Text ''package main''),
      File ''go.mod'' (Text ''module demo''),
      Dir ''node_modules'' [File ''index.js'' (Text ''import React'')],
      Dir ''pkg'' [File ''util.go'' (Text ''package pkg'')]]"



section \<open>Child processes\<close>

text \<open>
  \<^verbatim>\<open>subprocess.run(cmd, cwd=cwd, capture_output=True, text=True, timeout=t)\<close>.  With a
  timeout, a child that runs longer (or for ever) ends in \<^verbatim>\<open>TimeoutExpired\<close>;
  without one, the call waits for the child, for ever when the child never exits.
\<close>

definition subprocess_run ::
  "world \<Rightarrow> string list \<Rightarrow> string \<Rightarrow> nat option \<Rightarrow> (int \<times> string \<times> string) outcome" where
  "subprocess_run w cmd cwd timeout =
     (case proc_of w cmd cwd of
        Not_started e \<Rightarrow> Raises e
      | Never_exits \<Rightarrow>
          (case timeout of
             None \<Rightarrow> Hangs
           | Some t \<Rightarrow> Raises (Exn TimeoutExpired (timeout_text w cmd t)))
      | Exits secs rc out err \<Rightarrow>
          (case timeout of
             None \<Rightarrow> Returns (rc, out, err)
           | Some t \<Rightarrow>
               if secs \<le> t then Returns (rc, out, err)
               else Raises (Exn TimeoutExpired (timeout_text w cmd t))))"

text \<open>\<^verbatim>\<open>return result.returncode, result.stdout + result.stderr\<close>.\<close>

definition completed :: "int \<times> string \<times> string \<Rightarrow> (int \<times> string) outcome" where
  "completed result = (case result of (rc, out, err) \<Rightarrow> Returns (rc, out @ err))"

text \<open>\<^verbatim>\<open>os.path.join\<close> of two parts (POSIX).\<close>

definition path_join :: "string \<Rightarrow> string \<Rightarrow> string" where
  "path_join a b =
     (if startswith b ''/'' then b
      else if a = [] \<or> last a = CHR ''/'' then a @ b
      else a @ ''/'' @ b)"

section \<open>Test, lint and build providers (tools/code_runner.py)\<close>

definition run_python_tests :: "world \<Rightarrow> string \<Rightarrow> project_structure \<Rightarrow> (int \<times> string) outcome" where
  "run_python_tests w repo pa =
     except_Exception
       (except_class TimeoutExpired
          (and_then (subprocess_run w [''python'', ''-m'', ''pytest'', ''-v''] repo (Some 120))
             (\<lambda>(rc, out, err).
                if rc = 0 \<or> contains ''collected'' out then Returns (rc, out @ err)
                else and_then
                       (subprocess_run w [''python'', ''-m'', ''unittest'', ''discover'', ''-v'']
                          repo (Some 120))
                       completed))
          (\<lambda>e. Returns (1, ''Test execution timed out'')))
       (\<lambda>e. Returns (1, ''Error running Python tests: '' @ exn_text e))"

definition run_python_linting :: "world \<Rightarrow> string \<Rightarrow> project_structure \<Rightarrow> (int \<times> string) outcome" where
  "run_python_linting w repo pa =
     except_Exception
       (and_then (subprocess_run w [''ruff'', ''check'', ''.''] repo (Some 60))
          (\<lambda>(rc, out, err).
             if rc \<noteq> 127 then Returns (rc, out @ err)
             else and_then (subprocess_run w [''flake8'', ''.''] repo (Some 60)) completed))
       (\<lambda>e. Returns (1, ''Error running Python linting: '' @ exn_text e))"

definition run_javascript_tests :: "world \<Rightarrow> string \<Rightarrow> project_structure \<Rightarrow> (int \<times> string) outcome" where
  "run_javascript_tests w repo pa =
     except_Exception
       (if path_exists w (path_join repo ''package.json'') then
          and_then (subprocess_run w [''npm'', ''test''] repo (Some 120)) completed
        else Returns (0, ''No package.json found''))
       (\<lambda>e. Returns (1, ''Error running JavaScript tests: '' @ exn_text e))"

definition run_javascript_linting :: "world \<Rightarrow> string \<Rightarrow> project_structure \<Rightarrow> (int \<times> string) outcome" where
  "run_javascript_linting w repo pa =
     except_Exception
       (and_then (subprocess_run w [''npx'', ''eslint'', ''.''] repo (Some 60)) completed)
       (\<lambda>e. Returns (1, ''Error running JavaScript linting: '' @ exn_text e))"

definition run_typescript_tests :: "world \<Rightarrow> string \<Rightarrow> project_structure \<Rightarrow> (int \<times> string) outcome" where
  "run_typescript_tests w repo pa = run_javascript_tests w repo pa"

definition run_typescript_linting :: "world \<Rightarrow> string \<Rightarrow> project_structure \<Rightarrow> (int \<times> string) outcome" where
  "run_typescript_linting w repo pa =
     except_Exception
       (and_then (subprocess_run w [''npx'', ''tsc'', ''--noEmit''] repo (Some 60)) completed)
       (\<lambda>e. Returns (1, ''Error running TypeScript linting: '' @ exn_text e))"

definition run_csharp_tests :: "world \<Rightarrow> string \<Rightarrow> project_structure \<Rightarrow> (int \<times> string) outcome" where
  "run_csharp_tests w repo pa =
     except_Exception
       (and_then (subprocess_run w [''dotnet'', ''test''] repo (Some 120)) completed)
       (\<lambda>e. Returns (1, ''Error running C# tests: '' @ exn_text e))"

definition run_csharp_linting :: "world \<Rightarrow> string \<Rightarrow> project_structure \<Rightarrow> (int \<times> string) outcome" where
  "run_csharp_linting w repo pa =
     except_Exception
       (and_then
          (subprocess_run w [''dotnet'', ''build'', ''--verbosity'', ''normal''] repo (Some 60))
          completed)
       (\<lambda>e. Returns (1, ''Error running C# linting: '' @ exn_text e))"

definition run_java_tests :: "world \<Rightarrow> string \<Rightarrow> project_structure \<Rightarrow> (int \<times> string) outcome" where
  "run_java_tests w repo pa =
     except_Exception
       (if path_exists w (path_join repo ''pom.xml'') then
          and_then (subprocess_run w [''mvn'', ''test''] repo (Some 180)) completed
        else if path_exists w (path_join repo ''build.gradle'') then
          (let gradle_cmd = (if path_exists w (path_join repo ''gradlew'')
                             then ''./gradlew'' else ''gradle'')
           in and_then (subprocess_run w [gradle_cmd, ''test''] repo (Some 180)) completed)
        else Returns (0, ''No Maven or Gradle build file found''))
       (\<lambda>e. Returns (1, ''Error running Java tests: '' @ exn_text e))"

definition build_java_project :: "world \<Rightarrow> string \<Rightarrow> project_structure \<Rightarrow> (int \<times> string) outcome" where
  "build_java_project w repo pa =
     except_Exception
       (if path_exists w (path_join repo ''pom.xml'') then
          and_then (subprocess_run w [''mvn'', ''compile''] repo (Some 180)) completed
        else if path_exists w (path_join repo ''build.gradle'') then
          (let gradle_cmd = (if path_exists w (path_join repo ''gradlew'')
                             then ''./gradlew'' else ''gradle'')
           in and_then (subprocess_run w [gradle_cmd, ''compileJava''] repo (Some 180))
                completed)
        else Returns (0, ''No Maven or Gradle build file found''))
       (\<lambda>e. Returns (1, ''Error building Java project: '' @ exn_text e))"

definition run_java_linting :: "world \<Rightarrow> string \<Rightarrow> project_structure \<Rightarrow> (int \<times> string) outcome" where
  "run_java_linting w repo pa =
     except_Exception
       (and_then
          (subprocess_run w
             (if path_exists w (path_join repo ''pom.xml'')
              then [''mvn'', ''checkstyle:check''] else [''gradle'', ''check''])
             repo (Some 60))
          completed)
       (\<lambda>e. build_java_project w repo pa)"

definition run_go_tests :: "world \<Rightarrow> string \<Rightarrow> project_structure \<Rightarrow> (int \<times> string) outcome" where
  "run_go_tests w repo pa =
     except_Exception
       (and_then (subprocess_run w [''go'', ''test'', ''./...''] repo (Some 120)) completed)
       (\<lambda>e. Returns (1, ''Error running Go tests: '' @ exn_text e))"

definition run_go_linting :: "world \<Rightarrow> string \<Rightarrow> project_structure \<Rightarrow> (int \<times> string) outcome" where
  "run_go_linting w repo pa =
     except_Exception
       (and_then (subprocess_run w [''golangci-lint'', ''run''] repo (Some 60))
          (\<lambda>(rc, out, err).
             if rc \<noteq> 127 then Returns (rc, out @ err)
             else and_then (subprocess_run w [''go'', ''vet'', ''./...''] repo (Some 60))
                    completed))
       (\<lambda>e. Returns (1, ''Error running Go linting: '' @ exn_text e))"

definition run_rust_tests :: "world \<Rightarrow> string \<Rightarrow> project_structure \<Rightarrow> (int \<times> string) outcome" where
  "run_rust_tests w repo pa =
     except_Exception
       (and_then (subprocess_run w [''cargo'', ''test''] repo (Some 180)) completed)
       (\<lambda>e. Returns (1, ''Error running Rust tests: '' @ exn_text e))"

definition run_rust_linting :: "world \<Rightarrow> string \<Rightarrow> project_structure \<Rightarrow> (int \<times> string) outcome" where
  "run_rust_linting w repo pa =
     except_Exception
       (and_then
          (subprocess_run w [''cargo'', ''clippy'', ''--'', ''-D'', ''warnings''] repo (Some 60))
          completed)
       (\<lambda>e. Returns (1, ''Error running Rust linting: '' @ exn_text e))"

definition run_php_tests :: "world \<Rightarrow> string \<Rightarrow> project_structure \<Rightarrow> (int \<times> string) outcome" where
  "run_php_tests w repo pa =
     except_Exception
       (and_then
          (if path_exists w (path_join repo ''vendor/bin/phpunit'')
           then subprocess_run w [''vendor/bin/phpunit''] repo (Some 120)
           else subprocess_run w [''phpunit''] repo (Some 120))
          completed)
       (\<lambda>e. Returns (1, ''Error running PHP tests: '' @ exn_text e))"

text \<open>The loop of the two syntax checks: the first file that fails ends it.\<close>

fun check_each ::
  "world \<Rightarrow> string list \<Rightarrow> string \<Rightarrow> string list \<Rightarrow> string \<Rightarrow> (int \<times> string) outcome" where
  "check_each w tool repo [] done_text = Returns (0, done_text)"
| "check_each w tool repo (f # fs) done_text =
     and_then (subprocess_run w (tool @ [f]) repo (Some 30))
       (\<lambda>(rc, out, err).
          if rc \<noteq> 0 then Returns (rc, out @ err) else check_each w tool repo fs done_text)"

definition build_php_project :: "world \<Rightarrow> string \<Rightarrow> project_structure \<Rightarrow> (int \<times> string) outcome" where
  "build_php_project w repo pa =
     except_Exception
       (let php_files = filter (\<lambda>f. endswith f ''.php'') (source_files pa)
        in if php_files = [] then Returns (0, ''No PHP files found'')
           else check_each w [''php'', ''-l''] repo php_files
                  ''All PHP files syntax check passed'')
       (\<lambda>e. Returns (1, ''Error building PHP project: '' @ exn_text e))"

definition run_php_linting :: "world \<Rightarrow> string \<Rightarrow> project_structure \<Rightarrow> (int \<times> string) outcome" where
  "run_php_linting w repo pa =
     except_Exception
       (and_then (subprocess_run w [''phpcs'', ''.''] repo (Some 60)) completed)
       (\<lambda>e. build_php_project w repo pa)"

definition minitest_script :: string where
  "minitest_script =
     ''Dir.glob('' @ [CHR 0x27] @ ''./test/**/*_test.rb'' @ [CHR 0x27]
       @ '').each {|f| require f}''"

definition run_ruby_tests :: "world \<Rightarrow> string \<Rightarrow> project_structure \<Rightarrow> (int \<times> string) outcome" where
  "run_ruby_tests w repo pa =
     except_Exception
       (and_then
          (if path_exists w (path_join repo ''spec'')
           then subprocess_run w [''rspec''] repo (Some 120)
           else subprocess_run w [''ruby'', ''-Itest'', ''-e'', minitest_script] repo (Some 120))
          completed)
       (\<lambda>e. Returns (1, ''Error running Ruby tests: '' @ exn_text e))"

definition build_ruby_project :: "world \<Rightarrow> string \<Rightarrow> project_structure \<Rightarrow> (int \<times> string) outcome" where
  "build_ruby_project w repo pa =
     except_Exception
       (let ruby_files = filter (\<lambda>f. endswith f ''.rb'') (source_files pa)
        in if ruby_files = [] then Returns (0, ''No Ruby files found'')
           else check_each w [''ruby'', ''-c''] repo ruby_files
                  ''All Ruby files syntax check passed'')
       (\<lambda>e. Returns (1, ''Error building Ruby project: '' @ exn_text e))"

definition run_ruby_linting :: "world \<Rightarrow> string \<Rightarrow> project_structure \<Rightarrow> (int \<times> string) outcome" where
  "run_ruby_linting w repo pa =
     except_Exception
       (and_then (subprocess_run w [''rubocop''] repo (Some 60)) completed)
       (\<lambda>e. build_ruby_project w repo pa)"

text \<open>The two dispatch tables the tests step uses, as maps from the language.\<close>

definition test_runners ::
  "(string \<times> (world \<Rightarrow> string \<Rightarrow> project_structure \<Rightarrow> (int \<times> string) outcome)) list" where
  "test_runners =
     [(''python'', run_python_tests),
      (''javascript'', run_javascript_tests),
      (''typescript'', run_typescript_tests),
      (''csharp'', run_csharp_tests),
      (''java'', run_java_tests),
      (''go'', run_go_tests),
      (''rust'', run_rust_tests),
      (''php'', run_php_tests),
      (''ruby'', run_ruby_tests)]"

definition run_project_tests :: "world \<Rightarrow> string \<Rightarrow> project_structure \<Rightarrow> (int \<times> string) outcome" where
  "run_project_tests w repo pa =
     (let language = primary_language pa
      in case map_of test_runners language of
           Some runner \<Rightarrow> runner w repo pa
         | None \<Rightarrow> Returns (0, ''No test runner available for '' @ language))"

definition linters ::
  "(string \<times> (world \<Rightarrow> string \<Rightarrow> project_structure \<Rightarrow> (int \<times> string) outcome)) list" where
  "linters =
     [(''python'', run_python_linting),
      (''javascript'', run_javascript_linting),
      (''typescript'', run_typescript_linting),
      (''csharp'', run_csharp_linting),
      (''java'', run_java_linting),
      (''go'', run_go_linting),
      (''rust'', run_rust_linting),
      (''php'', run_php_linting),
      (''ruby'', run_ruby_linting)]"

definition run_project_linting :: "world \<Rightarrow> string \<Rightarrow> project_structure \<Rightarrow> (int \<times> string) outcome" where
  "run_project_linting w repo pa =
     (let language = primary_language pa
      in case map_of linters language of
           Some linter \<Rightarrow> linter w repo pa
         | None \<Rightarrow> Returns (0, ''No linter available for '' @ language))"


section \<open>The shell helper and the older providers (tools/shell.py, tools/runners.py)\<close>

text \<open>\<^verbatim>\<open>run(cmd, cwd)\<close>: \<^verbatim>\<open>subprocess.run\<close> with no \<^verbatim>\<open>timeout\<close> argument.\<close>

definition run :: "world \<Rightarrow> string list \<Rightarrow> string \<Rightarrow> (int \<times> string) outcome" where
  "run w cmd cwd = and_then (subprocess_run w cmd cwd None) completed"



definition run_python_audit :: "world \<Rightarrow> string \<Rightarrow> (int \<times> string) outcome" where
  "run_python_audit w repo =
     except_class FileNotFoundError
       (if path_exists w (path_join repo ''requirements.txt'')
        then run w [''pip-audit'', ''-r'', ''requirements.txt''] repo
        else run w [''pip-audit''] repo)
       (\<lambda>e. Returns (1, ''pip-audit not found - skipping security check''))"



definition run_node_audit :: "world \<Rightarrow> string \<Rightarrow> (int \<times> string) outcome" where
  "run_node_audit w repo =
     except_class FileNotFoundError
       (run w [''npm'', ''audit''] repo)
       (\<lambda>e. Returns (1, ''npm not found - skipping security audit''))"



definition run_dotnet_audit :: "world \<Rightarrow> string \<Rightarrow> (int \<times> string) outcome" where
  "run_dotnet_audit w repo =
     except_class FileNotFoundError
       (run w [''dotnet'', ''list'', ''package'', ''--vulnerable''] repo)
       (\<lambda>e. Returns (1, ''dotnet not found - skipping security audit''))"



definition run_java_audit :: "world \<Rightarrow> string \<Rightarrow> (int \<times> string) outcome" where
  "run_java_audit w repo =
     except_class FileNotFoundError
       (if path_exists w (path_join repo ''pom.xml'')
        then run w [''mvn'', ''dependency:tree''] repo
        else run w [''./gradlew'', ''dependencies''] repo)
       (\<lambda>e. Returns (1, ''Java build tools not found - skipping security audit''))"



definition run_go_audit :: "world \<Rightarrow> string \<Rightarrow> (int \<times> string) outcome" where
  "run_go_audit w repo =
     except_class FileNotFoundError
       (run w [''go'', ''list'', ''-m'', ''all''] repo)
       (\<lambda>e. Returns (1, ''go not found - skipping security audit''))"



definition run_rust_audit :: "world \<Rightarrow> string \<Rightarrow> (int \<times> string) outcome" where
  "run_rust_audit w repo =
     except_class FileNotFoundError
       (run w [''cargo'', ''audit''] repo)
       (\<lambda>e. Returns (1, ''cargo-audit not found - skipping security audit''))"



definition run_security_audit :: "world \<Rightarrow> string \<Rightarrow> project_structure \<Rightarrow> (int \<times> string) outcome" where
  "run_security_audit w repo pa =
     (let language = primary_language pa
      in if language = ''python'' then run_python_audit w repo
         else if language \<in> {''javascript'', ''typescript''} then run_node_audit w repo
         else if language = ''csharp'' then run_dotnet_audit w repo
         else if language = ''java'' then run_java_audit w repo
         else if language = ''go'' then run_go_audit w repo
         else if language = ''rust'' then run_rust_audit w repo
         else Returns (0, ''No security audit configured for '' @ language))"

text \<open>\<^verbatim>\<open>run_pip_audit\<close>, "Legacy function - use run_python_audit instead".\<close>

definition run_pip_audit :: "world \<Rightarrow> string \<Rightarrow> (int \<times> string) outcome" where
  "run_pip_audit w repo = run_python_audit w repo"

section \<open>The verification steps (agents/test_agent.py, agents/security.py)\<close>

definition tests_node :: "world \<Rightarrow> BuildState \<Rightarrow> BuildState outcome" where
  "tests_node w state =
     (let project_analysis = analyze_project_structure w (repo_path state);
          language = primary_language project_analysis
      in and_then (run_project_linting w (repo_path state) project_analysis)
           (\<lambda>(code, out).
              let state1 = state\<lparr>lint_ok := (code = 0),
                    logs := logs state
                      @ [''Linter ('' @ language @ ''): exit='' @ str_int code @ ''\<newline>''
                         @ take 1000 out]\<rparr>
              in and_then (run_project_tests w (repo_path state) project_analysis)
                   (\<lambda>(code', out').
                      Returns (state1\<lparr>tests_ok := (code' = 0),
                        logs := logs state1
                          @ [''Tests ('' @ language @ ''): exit='' @ str_int code'
                             @ ''\<newline>'' @ take 1000 out']\<rparr>))))"

definition security_node :: "world \<Rightarrow> BuildState \<Rightarrow> BuildState outcome" where
  "security_node w state =
     and_then (run_pip_audit w (repo_path state))
       (\<lambda>(code, out).
          Returns (state\<lparr>sec_ok := (code = 0),
            logs := logs state
              @ [''pip-audit: exit='' @ str_int code @ ''\<newline>'' @ take 1000 out]\<rparr>))"


section \<open>Returning and blocking\<close>

text \<open>Whether a call returns a value, and whether it never comes back.\<close>

fun returns :: "'a outcome \<Rightarrow> bool" where
  "returns (Returns x) = True"
| "returns (Raises e) = False"
| "returns Hangs = False"

fun blocks :: "'a outcome \<Rightarrow> bool" where
  "blocks Hangs = True"
| "blocks (Returns x) = False"
| "blocks (Raises e) = False"


section \<open>Absent tools and languages without a provider\<close>



text \<open>A result with exit code 0 or 1.\<close>

definition zero_or_one :: "(int \<times> string) outcome \<Rightarrow> bool" where
  "zero_or_one m = (\<exists>c msg. m = Returns (c, msg) \<and> (c = 0 \<or> c = 1))"


section \<open>The steps that call a backend or write files\<close>

text \<open>\<^verbatim>\<open>ensure_branch\<close> (tools/git_tools.py): two git commands through \<^verbatim>\<open>run\<close>, whose
  results are not looked at.\<close>

definition ensure_branch :: "world \<Rightarrow> string \<Rightarrow> string \<Rightarrow> string outcome" where
  "ensure_branch w repo name =
     and_then (run w [''git'', ''rev-parse'', ''--abbrev-ref'', ''HEAD''] repo)
       (\<lambda>r. and_then (run w [''git'', ''checkout'', ''-B'', name] repo)
               (\<lambda>r'. Returns name))"

text \<open>
  \<^verbatim>\<open>dev_node\<close> (agents/dev.py).  Lines 60 to 68 are modelled as written: the branch
  is ensured when the state has none, then the attempt counter is incremented and
  the first log line written.  Lines 70 to 165 (the analysis, the backend call, the
  files written, the dependencies, and the handler that writes fallback files) touch
  the state only through \<^verbatim>\<open>state["logs"].append\<close>; \<open>dev_work\<close> stands for them:
  the log lines they append, or the exception or the blocking they end in.
\<close>

definition dev_node :: "world \<Rightarrow> BuildState \<Rightarrow> BuildState outcome" where
  "dev_node w state =
     and_then
       (if branch state = [] then
          and_then (ensure_branch w (repo_path state) ''feat/auto-agent'')
            (\<lambda>b. Returns (state\<lparr>branch := b\<rparr>))
        else Returns state)
       (\<lambda>state1.
          let attempts = get_dev_attempts state1 + 1;
              state2 = state1\<lparr>dev_attempts := Some attempts,
                 logs := logs state1
                   @ [''Dev: Starting development (attempt '' @ str_int attempts @ '')'']\<rparr>
          in and_then (dev_work w state2)
               (\<lambda>entries. Returns (state2\<lparr>logs := logs state2 @ entries\<rparr>)))"

text \<open>
  \<^verbatim>\<open>architect_node\<close> (agents/architect.py): the repository summary cut to 4000
  characters, the backend's answer as the RFC, and the two artifacts written.
  \<open>chat_architecture\<close> stands for \<^verbatim>\<open>make_chat("architecture")\<close> and the call of
  the chat it gives; when both that and the summary fail, the model reports the
  summary's failure, the code the one of \<^verbatim>\<open>make_chat\<close>.
\<close>

definition architect_node :: "world \<Rightarrow> BuildState \<Rightarrow> BuildState outcome" where
  "architect_node w state =
     and_then (summarize_repo w (repo_path state))
       (\<lambda>repo.
          and_then (chat_architecture w (prd state) (take 4000 repo))
            (\<lambda>out.
               let state1 = state\<lparr>rfc := out,
                     logs := logs state @ [''Architect: RFC produced'']\<rparr>
               in and_then (write_artifact w (repo_path state) ''.agent/PRD.md'' (prd state1))
                    (\<lambda>u. and_then
                            (write_artifact w (repo_path state) ''.agent/RFC.md'' (rfc state1))
                            (\<lambda>u'. Returns state1))))"

text \<open>
  Modelled from the spec: \<^verbatim>\<open>pr_node\<close> of agents/pr_agent.py, which graph.py imports
  and which is not among the sources.  The spec says of the last step that it
  assembles the pull request (\<^verbatim>\<open>pullRequestRef\<close> is empty until assembled), that every
  step appends at least one entry to the log, and that the implement step is the
  only step permitted to change \<^verbatim>\<open>implementationAttempts\<close>.  \<open>pr_work\<close> gives the
  reference and the log lines, or the failure.
\<close>

definition pr_node :: "world \<Rightarrow> BuildState \<Rightarrow> BuildState outcome" where
  "pr_node w state =
     and_then (pr_work w state)
       (\<lambda>(url, line, more).
          Returns (state\<lparr>pr_url := url, logs := logs state @ line # more\<rparr>))"

section \<open>The orchestration graph (graph.py)\<close>

text \<open>The nodes \<^verbatim>\<open>plan\<close>, \<^verbatim>\<open>design\<close>, \<^verbatim>\<open>dev\<close>, \<^verbatim>\<open>tests\<close>, \<^verbatim>\<open>security\<close> and \<^verbatim>\<open>pr\<close>.\<close>

datatype node = Plan | Design | Dev | Tests | Security | Pr

text \<open>
  The routing functions, each with the mapping of \<^verbatim>\<open>add_conditional_edges\<close>
  applied to the name it returns.  They append their log line to the state's list in
  place, so they give the state back as well.
\<close>

definition dev_to_tests :: "BuildState \<Rightarrow> node \<times> BuildState" where
  "dev_to_tests state = (Tests, state)"

definition tests_next :: "BuildState \<Rightarrow> node \<times> BuildState" where
  "tests_next state =
     (if get_dev_attempts state \<ge> 3 then
        (Security,
         state\<lparr>logs := logs state @ [''Max dev attempts reached, proceeding to security'']\<rparr>)
      else (if tests_ok state \<and> lint_ok state then Security else Dev, state))"

definition sec_next :: "BuildState \<Rightarrow> node \<times> BuildState" where
  "sec_next state =
     (if get_dev_attempts state \<ge> 3 then
        (Pr, state\<lparr>logs := logs state @ [''Max dev attempts reached, proceeding to PR'']\<rparr>)
      else (if sec_ok state then Pr else Dev, state))"

text \<open>The function each node runs, and the node that follows (\<open>None\<close> is \<^verbatim>\<open>END\<close>).\<close>

fun exec_node :: "world \<Rightarrow> node \<Rightarrow> BuildState \<Rightarrow> BuildState outcome" where
  "exec_node w Plan state = planner_node w state"
| "exec_node w Design state = architect_node w state"
| "exec_node w Dev state = dev_node w state"
| "exec_node w Tests state = tests_node w state"
| "exec_node w Security state = security_node w state"
| "exec_node w Pr state = pr_node w state"

fun next_node :: "node \<Rightarrow> BuildState \<Rightarrow> node option \<times> BuildState" where
  "next_node Plan state = (Some Design, state)"
| "next_node Design state = (Some Dev, state)"
| "next_node Dev state = (Some (fst (dev_to_tests state)), snd (dev_to_tests state))"
| "next_node Tests state = (Some (fst (tests_next state)), snd (tests_next state))"
| "next_node Security state = (Some (fst (sec_next state)), snd (sec_next state))"
| "next_node Pr state = (None, state)"

text \<open>The edges of the graph.\<close>

fun edge :: "node \<Rightarrow> node \<Rightarrow> bool" where
  "edge Plan m = (m = Design)"
| "edge Design m = (m = Dev)"
| "edge Dev m = (m = Tests)"
| "edge Tests m = (m = Dev \<or> m = Security)"
| "edge Security m = (m = Dev \<or> m = Pr)"
| "edge Pr m = False"

text \<open>
  A run of the compiled graph from a node: the nodes executed, in order, and how the
  run ended (the final state, or the exception or blocking of the last node).  The
  world the \<open>k\<close>-th step execution sees is \<open>ws k\<close>.  The first argument bounds the
  number of step executions; \<open>None\<close> means the bound was reached before \<^verbatim>\<open>END\<close>.
\<close>

fun run_graph ::
  "(nat \<Rightarrow> world) \<Rightarrow> nat \<Rightarrow> nat \<Rightarrow> node \<Rightarrow> BuildState
     \<Rightarrow> (node list \<times> BuildState outcome) option" where
  "run_graph ws 0 k n state = None"
| "run_graph ws (Suc fuel) k n state =
     (case exec_node (ws k) n state of
        Returns state' \<Rightarrow>
          (case next_node n state' of
             (None, state'') \<Rightarrow> Some ([n], Returns state'')
           | (Some m, state'') \<Rightarrow>
               (case run_graph ws fuel (Suc k) m state'' of
                  None \<Rightarrow> None
                | Some (trace, r) \<Rightarrow> Some (n # trace, r)))
      | Raises e \<Rightarrow> Some ([n], Raises e)
      | Hangs \<Rightarrow> Some ([n], Hangs))"

text \<open>\<^verbatim>\<open>app.invoke(initial)\<close>: the entry point is \<^verbatim>\<open>plan\<close>.\<close>

definition invoke ::
  "(nat \<Rightarrow> world) \<Rightarrow> nat \<Rightarrow> BuildState \<Rightarrow> (node list \<times> BuildState outcome) option" where
  "invoke ws fuel state = run_graph ws fuel 0 Plan state"

text \<open>
  A bound on the step executions left when a node is entered with a given count of
  attempts: an implement entry with fewer than 3 attempts behind it may be followed
  by two verification steps and a further implement entry.
\<close>

definition dev_left :: "int \<Rightarrow> nat" where
  "dev_left a = 3 * nat (2 - a) + 4"

fun steps_left :: "node \<Rightarrow> int \<Rightarrow> nat" where
  "steps_left Plan a = 2 + dev_left a"
| "steps_left Design a = 1 + dev_left a"
| "steps_left Dev a = dev_left a"
| "steps_left Tests a = (if a \<ge> 3 then 3 else 2 + dev_left a)"
| "steps_left Security a = (if a \<ge> 3 then 2 else 1 + dev_left a)"
| "steps_left Pr a = 1"

text \<open>Where a run may stand: implement is entered with fewer than 3 attempts.\<close>

fun reachable :: "node \<Rightarrow> int \<Rightarrow> bool" where
  "reachable Plan a = (a \<le> 2)"
| "reachable Design a = (a \<le> 2)"
| "reachable Dev a = (a \<le> 2)"
| "reachable Tests a = (a \<le> 3)"
| "reachable Security a = (a \<le> 3)"
| "reachable Pr a = (a \<le> 3)"

text \<open>The result of a run, read off: its trace, and the attempts and the pull request
  reference of its final state.\<close>

definition summary ::
  "(node list \<times> BuildState outcome) option \<Rightarrow> (node list \<times> int \<times> string) option" where
  "summary r =
     (case r of
        Some (trace, Returns state) \<Rightarrow> Some (trace, get_dev_attempts state, pr_url state)
      | _ \<Rightarrow> None)"


section \<open>Concrete surroundings\<close>

text \<open>
  A world to run the model in: JSON is decoded by \<open>json_decode\<close>, every backend
  answers with the empty text, every child process exits at once with code 0 and no
  output, no path exists, every directory is empty, the implement step writes no
  further log lines and the pull request gets the reference \<^verbatim>\<open>pr/1\<close>.  The examples below change
  the fields they are about.
\<close>

definition plain_world :: world where
  "plain_world =
     \<lparr>json_loads = json_decode, json_error = (\<lambda>s. ''Expecting value''),
      py_repr = (\<lambda>v. ''?''), error_text = (\<lambda>k v. []),
      chat_planning = (\<lambda>r. Returns []), chat_router = (\<lambda>t s. Returns []),
      chat_architecture = (\<lambda>p r. Returns []), summarize_repo = (\<lambda>p. Returns []),
      write_artifact = (\<lambda>p r c. Returns ()), proc_of = (\<lambda>cmd cwd. Exits 0 0 [] []),
      timeout_text = (\<lambda>cmd t. []), path_exists = (\<lambda>p. False), tree_of = (\<lambda>p. []),
      dev_work = (\<lambda>s. Returns []), pr_work = (\<lambda>s. Returns (''pr/1'', ''PR: assembled'', []))\<rparr>"

text \<open>The Go module \<open>go_tree_a\<close> where every child process exits with code 2 after a second.\<close>

definition failing_go_world :: world where
  "failing_go_world =
     plain_world\<lparr>tree_of := (\<lambda>p. go_tree_a),
                 proc_of := (\<lambda>cmd cwd. Exits 1 2 ''FAIL'' [])\<rparr>"


text \<open>A Rust crate.  \<^verbatim>\<open>cargo audit\<close> finds nothing and exits with 0, \<^verbatim>\<open>pip-audit\<close>
  reports vulnerabilities of the Python environment and exits with 1, and no other
  program is installed.\<close>

definition rust_tree :: "entry list" where
  "rust_tree =
     [File ''Cargo.toml'' (Text ''[package]''),
      Dir ''src'' [File ''main.rs'' (Text ''fn main() {}'')]]"

definition rust_world :: world where
  "rust_world =
     plain_world\<lparr>tree_of := (\<lambda>p. rust_tree),
       proc_of := (\<lambda>cmd cwd.
         if cmd = [''cargo'', ''audit''] then Exits 1 0 ''no vulnerabilities found'' []
         else if cmd = [''pip-audit''] then Exits 1 1 ''2 known vulnerabilities'' []
         else Not_started (Exn FileNotFoundError ''[Errno 2] No such file or directory''))\<rparr>"

text \<open>The Go module \<open>go_tree_a\<close> where no child process ever exits.\<close>

definition hung_world :: world where
  "hung_world =
     plain_world\<lparr>tree_of := (\<lambda>p. go_tree_a), proc_of := (\<lambda>cmd cwd. Never_exits),
       timeout_text := (\<lambda>cmd t. ''timed out after '' @ str_nat t @ '' seconds'')\<rparr>"

text \<open>An empty repository where the audit alone fails: \<^verbatim>\<open>pip-audit\<close> exits with 1
  and every other program with 0.\<close>

definition audit_fails_world :: world where
  "audit_fails_world =
     plain_world\<lparr>proc_of := (\<lambda>cmd cwd.
        if cmd = [''pip-audit''] then Exits 1 1 ''1 known vulnerability'' []
        else Exits 1 0 [] [])\<rparr>"


section \<open>Facts about dicts, strings and the conversion loop\<close>

lemma dict_get_snoc: "dict_get (kvs @ [(k', v)]) k = (if k' = k then Some v else dict_get kvs k)"
  by (simp add: dict_get_def)

lemma dict_get_None_iff: "dict_get kvs k = None \<longleftrightarrow> \<not> dict_has kvs k"
  by (simp add: dict_get_def dict_has_def map_of_eq_None_iff)

lemma dict_get_dict_set: "dict_get (dict_set kvs k v) k = Some v"
proof (cases "dict_has kvs k")
  case False
  then show ?thesis by (simp add: dict_set_def dict_get_snoc)
next
  case True
  have "dict_has xs k \<Longrightarrow>
        dict_get (map (\<lambda>(k', v'). if k' = k then (k', v) else (k', v')) xs) k = Some v" for xs
  proof (induction xs rule: rev_induct)
    case Nil
    then show ?case by (simp add: dict_has_def)
  next
    case (snoc x xs)
    obtain a b where x: "x = (a, b)" by (cases x)
    show ?case
    proof (cases "a = k")
      case True
      then show ?thesis by (simp add: x dict_get_snoc)
    next
      case False
      with snoc.prems have "dict_has xs k" by (simp add: dict_has_def x)
      with snoc.IH False show ?thesis by (simp add: x dict_get_snoc)
    qed
  qed
  with True show ?thesis by (simp add: dict_set_def)
qed

lemma dict_get_dict_set_other: "k' \<noteq> k \<Longrightarrow> dict_get (dict_set kvs k v) k' = dict_get kvs k'"
proof (cases "dict_has kvs k")
  case False
  assume "k' \<noteq> k"
  with False show ?thesis by (simp add: dict_set_def dict_get_snoc)
next
  case True
  assume ne: "k' \<noteq> k"
  have "dict_get (map (\<lambda>(a, b). if a = k then (a, v) else (a, b)) xs) k' = dict_get xs k'" for xs
  proof (induction xs rule: rev_induct)
    case Nil
    then show ?case by simp
  next
    case (snoc x xs)
    obtain a b where x: "x = (a, b)" by (cases x)
    from snoc ne show ?case by (auto simp: x dict_get_snoc)
  qed
  with True show ?thesis by (simp add: dict_set_def)
qed

lemma convert_tasks_acc:
  "convert_tasks w items acc =
     acc @ map (\<lambda>(k, t). convert_task w t k) (enumerate (length acc) (dict_items items))"
proof (induction items arbitrary: acc)
  case Nil
  then show ?case by simp
next
  case (Cons a items)
  show ?case by (cases a) (simp_all add: Cons.IH)
qed

lemma py_str_JStr [simp]: "py_str w (JStr s) = s"
  by (simp add: py_str_def)

lemma convert_task_id:
  "validate_Task (convert_task w t k) = Some tk \<Longrightarrow> task_id tk = supplied_id w t k"
  by (auto simp: validate_Task_def convert_task_def dict_get_def supplied_id_def
      dict_get_default_def split: option.splits json.splits)

lemma those_map_Some:
  "those (map f xs) = Some ys \<Longrightarrow> list_all2 (\<lambda>x y. f x = Some y) xs ys"
proof (induction xs arbitrary: ys)
  case Nil
  then show ?case by simp
next
  case (Cons x xs)
  then show ?case by (auto split: option.splits)
qed


lemma digits_value_snoc:
  "digits_value (ds @ [c]) = 10 * digits_value ds + (int (of_char c) - 48)"
  by (simp add: digits_value_def)

lemma digits_value_str_nat: "digits_value (str_nat n) = int n"
proof (induction n rule: str_nat.induct)
  case (1 n)
  show ?case
  proof (cases "n < 10")
    case True
    then show ?thesis
      by (subst str_nat.simps) (simp add: digits_value_def)
  next
    case False
    have m: "(48 + n mod 10) mod 256 = 48 + n mod 10"
      by (rule mod_less) (use mod_less_divisor [of 10 n] in linarith)
    from False 1 have "digits_value (str_nat (n div 10)) = int (n div 10)" by simp
    with False show ?thesis
      by (subst str_nat.simps) (simp add: digits_value_snoc m zdiv_int zmod_int)
  qed
qed

lemma str_nat_inj: "str_nat m = str_nat n \<Longrightarrow> m = n"
  by (metis digits_value_str_nat of_nat_eq_iff)

lemma str_nat_nonempty: "str_nat n \<noteq> []"
  by (subst str_nat.simps) simp

lemma supplied_id_synth:
  "\<not> dict_has t ''task_id'' \<Longrightarrow> \<not> dict_has t ''id'' \<Longrightarrow>
   supplied_id w t k = ''task'' @ str_nat (k + 1)"
  by (simp add: supplied_id_def dict_get_None_iff [symmetric])


section \<open>Facts about the brace extraction\<close>

lemma find_from_append:
  "c \<notin> set pre \<Longrightarrow> find_from c (pre @ c # rest) k = int (k + length pre)"
  by (induction pre arbitrary: k) auto

lemma find_from_absent: "c \<notin> set s \<Longrightarrow> find_from c s k = -1"
  by (induction s arbitrary: k) auto

lemma find_from_nonneg: "c \<in> set s \<Longrightarrow> 0 \<le> find_from c s k"
  by (induction s arbitrary: k) auto

lemma str_find_embedded:
  "c \<notin> set pre \<Longrightarrow> str_find (pre @ c # rest) c = int (length pre)"
  by (simp add: str_find_def find_from_append)

lemma str_rfind_embedded:
  "c \<notin> set post \<Longrightarrow> str_rfind (body @ c # post) c = int (length body)"
  using find_from_append [of c "rev post" "rev body" 0]
  by (simp add: str_rfind_def)

lemma py_slice_middle:
  "py_slice (pre @ mid @ post) (int (length pre)) (int (length pre + length mid)) = mid"
  by (simp add: py_slice_def min_def)

lemma extraction_embedded:
  assumes "CHR 0x7B \<notin> set pre" and "CHR 0x7D \<notin> set post"
    and "payload \<noteq> []" and "hd payload = CHR 0x7B" and "last payload = CHR 0x7D"
  shows "str_find (pre @ payload @ post) (CHR 0x7B) = int (length pre)"
    and "str_rfind (pre @ payload @ post) (CHR 0x7D) + 1 = int (length pre + length payload)"
proof -
  from assms(3,4) obtain rest where p1: "payload = CHR 0x7B # rest"
    by (cases payload) auto
  from assms(3,5) obtain body where p2: "payload = body @ [CHR 0x7D]"
    by (metis append_butlast_last_id)
  show "str_find (pre @ payload @ post) (CHR 0x7B) = int (length pre)"
    using str_find_embedded [OF assms(1), of "rest @ post"] by (simp add: p1)
  show "str_rfind (pre @ payload @ post) (CHR 0x7D) + 1 = int (length pre + length payload)"
    using str_rfind_embedded [OF assms(2), of "pre @ body"] by (simp add: p2)
qed


section \<open>Facts about the planner's last stage\<close>

lemma planner_finish_fallback:
  "planner_finish w s (fallback_data req)
     = Returns (s\<lparr>prd := fallback_prd req, tasks := fallback_tasks,
                  logs := logs s @ [''Planner: PRD+tasks created'']\<rparr>)"
  by (simp add: planner_finish_def fallback_data_def dict_has_def dict_get_def iterate_def
      dict_set_def convert_task_def dict_get_default_def validate_PlannerOut_def
      validate_Task_def fallback_prd_def fallback_tasks_def)





section \<open>Facts about the file listing\<close>











section \<open>The providers of code_runner.py always return\<close>

lemma returns_not_blocks: "returns m \<Longrightarrow> \<not> blocks m"
  by (cases m) auto

lemma subprocess_run_timeout: "\<not> blocks (subprocess_run w cmd cwd (Some t))"
  by (auto simp: subprocess_run_def split: proc.splits)

lemma blocks_and_then:
  "blocks (and_then m f) \<longleftrightarrow> blocks m \<or> (\<exists>x. m = Returns x \<and> blocks (f x))"
  by (cases m) auto

lemma completed_returns: "returns (completed r)"
  by (cases r) (simp add: completed_def)

lemma completed_not_blocks: "\<not> blocks (completed r)"
  by (cases r) (simp add: completed_def)

lemma except_Exception_returns:
  "\<not> blocks m \<Longrightarrow> (\<And>e. returns (h e)) \<Longrightarrow> returns (except_Exception m h)"
  by (cases m) auto

lemma blocks_except_class:
  "blocks (except_class k m h)
     \<longleftrightarrow> blocks m \<or> (\<exists>e. m = Raises e \<and> exn_class e = k \<and> blocks (h e))"
  by (cases m) auto

lemma check_each_not_blocks: "\<not> blocks (check_each w tool repo fs txt)"
  by (induction fs)
    (auto simp: blocks_and_then subprocess_run_timeout split: prod.splits)

lemmas total_simps =
  blocks_and_then blocks_except_class subprocess_run_timeout completed_not_blocks
  check_each_not_blocks

lemma run_python_tests_returns: "returns (run_python_tests w repo pa)"
  unfolding run_python_tests_def
  by (rule except_Exception_returns) (auto simp: total_simps split: prod.splits)

lemma run_python_linting_returns: "returns (run_python_linting w repo pa)"
  unfolding run_python_linting_def
  by (rule except_Exception_returns) (auto simp: total_simps split: prod.splits)

lemma run_javascript_tests_returns: "returns (run_javascript_tests w repo pa)"
  unfolding run_javascript_tests_def
  by (rule except_Exception_returns) (auto simp: total_simps split: prod.splits)

lemma run_javascript_linting_returns: "returns (run_javascript_linting w repo pa)"
  unfolding run_javascript_linting_def
  by (rule except_Exception_returns) (auto simp: total_simps split: prod.splits)

lemma run_typescript_linting_returns: "returns (run_typescript_linting w repo pa)"
  unfolding run_typescript_linting_def
  by (rule except_Exception_returns) (auto simp: total_simps split: prod.splits)

lemma run_csharp_tests_returns: "returns (run_csharp_tests w repo pa)"
  unfolding run_csharp_tests_def
  by (rule except_Exception_returns) (auto simp: total_simps split: prod.splits)

lemma run_csharp_linting_returns: "returns (run_csharp_linting w repo pa)"
  unfolding run_csharp_linting_def
  by (rule except_Exception_returns) (auto simp: total_simps split: prod.splits)

lemma run_java_tests_returns: "returns (run_java_tests w repo pa)"
  unfolding run_java_tests_def Let_def
  by (rule except_Exception_returns) (auto simp: total_simps split: prod.splits)

lemma build_java_project_returns: "returns (build_java_project w repo pa)"
  unfolding build_java_project_def Let_def
  by (rule except_Exception_returns) (auto simp: total_simps split: prod.splits)

lemma run_java_linting_returns: "returns (run_java_linting w repo pa)"
  unfolding run_java_linting_def
  by (rule except_Exception_returns) (auto simp: total_simps build_java_project_returns split: prod.splits)

lemma run_go_tests_returns: "returns (run_go_tests w repo pa)"
  unfolding run_go_tests_def
  by (rule except_Exception_returns) (auto simp: total_simps split: prod.splits)

lemma run_go_linting_returns: "returns (run_go_linting w repo pa)"
  unfolding run_go_linting_def
  by (rule except_Exception_returns) (auto simp: total_simps split: prod.splits)

lemma run_rust_tests_returns: "returns (run_rust_tests w repo pa)"
  unfolding run_rust_tests_def
  by (rule except_Exception_returns) (auto simp: total_simps split: prod.splits)

lemma run_rust_linting_returns: "returns (run_rust_linting w repo pa)"
  unfolding run_rust_linting_def
  by (rule except_Exception_returns) (auto simp: total_simps split: prod.splits)

lemma run_php_tests_returns: "returns (run_php_tests w repo pa)"
  unfolding run_php_tests_def
  by (rule except_Exception_returns) (auto simp: total_simps split: prod.splits)

lemma build_php_project_returns: "returns (build_php_project w repo pa)"
  unfolding build_php_project_def Let_def
  by (rule except_Exception_returns) (auto simp: total_simps split: prod.splits)

lemma run_php_linting_returns: "returns (run_php_linting w repo pa)"
  unfolding run_php_linting_def
  by (rule except_Exception_returns) (auto simp: total_simps build_php_project_returns split: prod.splits)

lemma run_ruby_tests_returns: "returns (run_ruby_tests w repo pa)"
  unfolding run_ruby_tests_def
  by (rule except_Exception_returns) (auto simp: total_simps split: prod.splits)

lemma build_ruby_project_returns: "returns (build_ruby_project w repo pa)"
  unfolding build_ruby_project_def Let_def
  by (rule except_Exception_returns) (auto simp: total_simps split: prod.splits)

lemma run_ruby_linting_returns: "returns (run_ruby_linting w repo pa)"
  unfolding run_ruby_linting_def
  by (rule except_Exception_returns) (auto simp: total_simps build_ruby_project_returns split: prod.splits)

lemma test_runner_returns:
  "map_of test_runners lang = Some runner \<Longrightarrow> returns (runner w repo pa)"
  by (auto simp: test_runners_def run_typescript_tests_def
      run_python_tests_returns run_javascript_tests_returns run_csharp_tests_returns
      run_java_tests_returns run_go_tests_returns run_rust_tests_returns
      run_php_tests_returns run_ruby_tests_returns split: if_splits)

lemma linter_returns:
  "map_of linters lang = Some linter \<Longrightarrow> returns (linter w repo pa)"
  by (auto simp: linters_def
      run_python_linting_returns run_javascript_linting_returns run_typescript_linting_returns
      run_csharp_linting_returns run_java_linting_returns run_go_linting_returns
      run_rust_linting_returns run_php_linting_returns run_ruby_linting_returns
      split: if_splits)

lemma run_project_tests_returns: "returns (run_project_tests w repo pa)"
  by (auto simp: run_project_tests_def Let_def test_runner_returns split: option.splits)

lemma run_project_linting_returns: "returns (run_project_linting w repo pa)"
  by (auto simp: run_project_linting_def Let_def linter_returns split: option.splits)


lemma returnsE: "returns m \<Longrightarrow> (\<And>x. m = Returns x \<Longrightarrow> P) \<Longrightarrow> P"
  by (cases m) auto

lemma tests_node_returns:
  "\<exists>a b l1 l2. tests_node w state
      = Returns (state\<lparr>lint_ok := a, tests_ok := b, logs := logs state @ [l1, l2]\<rparr>)"
proof -
  let ?pa = "analyze_project_structure w (repo_path state)"
  obtain c1 o1 where lint: "run_project_linting w (repo_path state) ?pa = Returns (c1, o1)"
    by (metis returnsE run_project_linting_returns surj_pair)
  obtain c2 o2 where test: "run_project_tests w (repo_path state) ?pa = Returns (c2, o2)"
    by (metis returnsE run_project_tests_returns surj_pair)
  have "tests_node w state
        = Returns (state\<lparr>lint_ok := (c1 = 0), tests_ok := (c2 = 0),
            logs := logs state
              @ [''Linter ('' @ primary_language ?pa @ ''): exit='' @ str_int c1
                   @ ''\<newline>'' @ take 1000 o1,
                 ''Tests ('' @ primary_language ?pa @ ''): exit='' @ str_int c2
                   @ ''\<newline>'' @ take 1000 o2]\<rparr>)"
    by (simp add: tests_node_def Let_def lint test)
  then show ?thesis by blast
qed

section \<open>The providers when no tool can be started\<close>


lemma zero_or_one_Returns [simp]: "zero_or_one (Returns (c, msg)) \<longleftrightarrow> c = 0 \<or> c = 1"
  by (auto simp: zero_or_one_def)








section \<open>Facts about the steps and the routing\<close>

lemma and_then_Returns_iff:
  "and_then m f = Returns y \<longleftrightarrow> (\<exists>x. m = Returns x \<and> f x = Returns y)"
  by (cases m) auto

lemma planner_finish_attempts:
  "planner_finish w s data = Returns s' \<Longrightarrow> dev_attempts s' = dev_attempts s"
  by (auto simp: planner_finish_def and_then_Returns_iff
      split: json.splits option.splits if_splits)

lemma planner_node_attempts:
  "planner_node w s = Returns s' \<Longrightarrow> dev_attempts s' = dev_attempts s"
proof -
  assume r: "planner_node w s = Returns s'"
  then obtain raw where raw: "chat_planning w (request s) = Returns raw"
    by (auto simp: planner_node_def and_then_Returns_iff)
  obtain data ls where pp: "planner_parse w (request s) raw = (data, ls)"
    by (cases "planner_parse w (request s) raw")
  from r raw pp have "planner_finish w
      (s\<lparr>logs := logs s @ [''Planner raw response: '' @ take 200 raw @ ''...''] @ ls\<rparr>) data
      = Returns s'"
    by (simp add: planner_node_def)
  from planner_finish_attempts [OF this] show ?thesis by simp
qed

lemma architect_node_attempts:
  "architect_node w s = Returns s' \<Longrightarrow> dev_attempts s' = dev_attempts s"
  by (auto simp: architect_node_def and_then_Returns_iff Let_def)

lemma tests_node_attempts:
  "tests_node w s = Returns s' \<Longrightarrow> dev_attempts s' = dev_attempts s"
  by (auto simp: tests_node_def and_then_Returns_iff Let_def)

lemma security_node_attempts:
  "security_node w s = Returns s' \<Longrightarrow> dev_attempts s' = dev_attempts s"
  by (auto simp: security_node_def and_then_Returns_iff)

lemma pr_node_attempts:
  "pr_node w s = Returns s' \<Longrightarrow> dev_attempts s' = dev_attempts s"
  by (auto simp: pr_node_def and_then_Returns_iff)

lemma dev_node_attempts:
  "dev_node w s = Returns s' \<Longrightarrow> dev_attempts s' = Some (get_dev_attempts s + 1)"
  by (auto simp: dev_node_def and_then_Returns_iff Let_def get_dev_attempts_def
      split: if_splits)

lemma exec_node_attempts:
  assumes "exec_node w n s = Returns s'"
  shows "get_dev_attempts s' = (if n = Dev then get_dev_attempts s + 1 else get_dev_attempts s)"
  using assms
  by (cases n)
    (auto simp: get_dev_attempts_def dest: planner_node_attempts architect_node_attempts
      tests_node_attempts security_node_attempts pr_node_attempts dev_node_attempts)

lemma next_node_attempts: "get_dev_attempts (snd (next_node n s)) = get_dev_attempts s"
  by (cases n) (auto simp: dev_to_tests_def tests_next_def sec_next_def get_dev_attempts_def)

lemma next_node_edge: "next_node n s = (Some m, s') \<Longrightarrow> edge n m"
  by (cases n) (auto simp: dev_to_tests_def tests_next_def sec_next_def split: if_splits)

lemma next_node_end: "next_node n s = (None, s') \<Longrightarrow> n = Pr"
  by (cases n) auto

lemma next_node_steps:
  assumes "next_node n s = (Some m, s')"
  shows "Suc (steps_left m (get_dev_attempts s))
           \<le> steps_left n (if n = Dev then get_dev_attempts s - 1 else get_dev_attempts s)"
  using assms
  by (cases n)
    (auto simp: dev_to_tests_def tests_next_def sec_next_def dev_left_def split: if_splits)

lemma next_node_reachable:
  assumes "next_node n s = (Some m, s')"
    and "reachable n (if n = Dev then get_dev_attempts s - 1 else get_dev_attempts s)"
  shows "reachable m (get_dev_attempts s)"
  using assms
  by (cases n)
    (auto simp: dev_to_tests_def tests_next_def sec_next_def split: if_splits)

lemma steps_left_pos: "1 \<le> steps_left n a"
  by (cases n) (auto simp: dev_left_def)

lemma run_graph_bounded:
  assumes "steps_left n (get_dev_attempts s) \<le> fuel"
  shows "\<exists>trace r. run_graph ws fuel k n s = Some (trace, r)
           \<and> trace \<noteq> [] \<and> hd trace = n
           \<and> length trace \<le> steps_left n (get_dev_attempts s)
           \<and> successively edge trace
           \<and> (\<forall>s'. r = Returns s' \<longrightarrow>
                 last trace = Pr
                 \<and> get_dev_attempts s' = get_dev_attempts s + int (count_list trace Dev)
                 \<and> (reachable n (get_dev_attempts s) \<longrightarrow> get_dev_attempts s' \<le> 3))
           \<and> ((\<forall>j m t. returns (exec_node (ws j) m t)) \<longrightarrow> returns r)"
  using assms
proof (induction fuel arbitrary: k n s)
  case 0
  with steps_left_pos [of n "get_dev_attempts s"] show ?case by simp
next
  case (Suc fuel)
  show ?case
  proof (cases "exec_node (ws k) n s")
    case (Raises e)
    have r: "run_graph ws (Suc fuel) k n s = Some ([n], Raises e)"
      by (simp add: Raises)
    have nr: "\<not> (\<forall>j m t. returns (exec_node (ws j) m t))"
      using Raises by (metis returns.simps(2))
    from r nr steps_left_pos [of n "get_dev_attempts s"] show ?thesis by auto
  next
    case Hangs
    have r: "run_graph ws (Suc fuel) k n s = Some ([n], Hangs)"
      by (simp add: Hangs)
    have nr: "\<not> (\<forall>j m t. returns (exec_node (ws j) m t))"
      using Hangs by (metis returns.simps(3))
    from r nr steps_left_pos [of n "get_dev_attempts s"] show ?thesis by auto
  next
    case (Returns s1)
    note a1 = exec_node_attempts [OF Returns]
    obtain nx s2 where nn: "next_node n s1 = (nx, s2)" by (cases "next_node n s1")
    from next_node_attempts [of n s1] nn have a2: "get_dev_attempts s2 = get_dev_attempts s1"
      by simp
    show ?thesis
    proof (cases nx)
      case None
      with nn have pr: "n = Pr" by (auto dest: next_node_end)
      have r: "run_graph ws (Suc fuel) k Pr s = Some ([Pr], Returns s2)"
        using Returns nn None by (simp add: pr)
      have att: "get_dev_attempts s2 = get_dev_attempts s"
        using a1 a2 pr by simp
      show ?thesis
        unfolding pr r by (simp add: att)
    next
      case (Some m)
      from next_node_steps [of n s1 m s2] nn Some a1
      have dec: "Suc (steps_left m (get_dev_attempts s1)) \<le> steps_left n (get_dev_attempts s)"
        by (auto split: if_splits)
      with Suc.prems a2 have "steps_left m (get_dev_attempts s2) \<le> fuel" by simp
      from Suc.IH [OF this, of "Suc k"] obtain trace r
        where run: "run_graph ws fuel (Suc k) m s2 = Some (trace, r)"
          and ne: "trace \<noteq> []" and hd: "hd trace = m"
          and len: "length trace \<le> steps_left m (get_dev_attempts s2)"
          and suc: "successively edge trace"
          and fin: "\<forall>s'. r = Returns s' \<longrightarrow>
                 last trace = Pr
                 \<and> get_dev_attempts s' = get_dev_attempts s2 + int (count_list trace Dev)
                 \<and> (reachable m (get_dev_attempts s2) \<longrightarrow> get_dev_attempts s' \<le> 3)"
          and tot: "(\<forall>j m t. returns (exec_node (ws j) m t)) \<longrightarrow> returns r"
        by blast
      have e: "edge n m" using nn Some by (auto dest: next_node_edge)
      have r1: "run_graph ws (Suc fuel) k n s = Some (n # trace, r)"
        by (simp add: Returns nn Some run)
      have s1: "successively edge (n # trace)"
        using ne hd suc e by (cases trace) auto
      have l1: "length (n # trace) \<le> steps_left n (get_dev_attempts s)"
        using len dec a2 by simp
      have re: "reachable m (get_dev_attempts s2)" if "reachable n (get_dev_attempts s)"
        using next_node_reachable [of n s1 m s2] nn Some a1 a2 that by (auto split: if_splits)
      have f1: "last (n # trace) = Pr
                 \<and> get_dev_attempts s' = get_dev_attempts s + int (count_list (n # trace) Dev)
                 \<and> (reachable n (get_dev_attempts s) \<longrightarrow> get_dev_attempts s' \<le> 3)"
        if "r = Returns s'" for s'
        using fin that ne a1 a2 re by auto
      from r1 s1 l1 f1 tot show ?thesis by auto
    qed
  qed
qed


lemma run_graph_monotone:
  "run_graph ws fuel k n s = Some (trace, Returns s') \<Longrightarrow>
   get_dev_attempts s \<le> get_dev_attempts s'"
proof (induction fuel arbitrary: k n s trace)
  case 0
  then show ?case by simp
next
  case (Suc fuel)
  from Suc.prems obtain s1 where ex: "exec_node (ws k) n s = Returns s1"
    by (cases "exec_node (ws k) n s") auto
  obtain nx s2 where nn: "next_node n s1 = (nx, s2)" by (cases "next_node n s1")
  from exec_node_attempts [OF ex] have a1: "get_dev_attempts s \<le> get_dev_attempts s1"
    by (simp split: if_splits)
  from next_node_attempts [of n s1] nn have a2: "get_dev_attempts s2 = get_dev_attempts s1"
    by simp
  show ?case
  proof (cases nx)
    case None
    with Suc.prems ex nn have "s' = s2" by simp
    with a1 a2 show ?thesis by simp
  next
    case (Some m)
    with Suc.prems ex nn obtain tr where "run_graph ws fuel (Suc k) m s2 = Some (tr, Returns s')"
      by (auto split: option.splits)
    from Suc.IH [OF this] a1 a2 show ?thesis by simp
  qed
qed

lemma json_decode_empty: "json_decode [] = None"
  by (simp add: json_decode_def skip_ws_def scan_atom_def startswith_def scan_number_def)

lemma audit_fails_world_returns: "returns (exec_node audit_fails_world n s)"
proof (cases n)
  case Plan
  have "planner_parse audit_fails_world (request s) []
          = (fallback_data (request s),
             [''JSON parse error: Expecting value'', ''No JSON found, creating fallback response''])"
    by (simp add: planner_parse_def audit_fails_world_def plain_world_def json_decode_empty
        str_find_def)
  then show ?thesis
    by (simp add: Plan planner_node_def planner_finish_fallback audit_fails_world_def
        plain_world_def)
next
  case Design
  then show ?thesis
    by (simp add: architect_node_def audit_fails_world_def plain_world_def)
next
  case Dev
  then show ?thesis
    by (simp add: dev_node_def ensure_branch_def run_def subprocess_run_def completed_def
        audit_fails_world_def plain_world_def Let_def)
next
  case Tests
  obtain a b l1 l2 where "tests_node audit_fails_world s
        = Returns (s\<lparr>lint_ok := a, tests_ok := b, logs := logs s @ [l1, l2]\<rparr>)"
    using tests_node_returns by blast
  with Tests show ?thesis by simp
next
  case Security
  then show ?thesis
    by (simp add: security_node_def run_pip_audit_def run_python_audit_def run_def
        subprocess_run_def completed_def audit_fails_world_def plain_world_def)
next
  case Pr
  then show ?thesis
    by (simp add: pr_node_def audit_fails_world_def plain_world_def)
qed



section \<open>Task ids after the planner step\<close>

text \<open>
  C8 (as amended).  When the planner step finishes on decoded data whose \<^verbatim>\<open>tasks\<close>
  is a list, the ids of the state's tasks are, in order, the ids of the list's dict
  items: a supplied \<^verbatim>\<open>task_id\<close> or \<^verbatim>\<open>id\<close> is kept as \<^verbatim>\<open>str\<close> gives it, and an item
  with neither key gets \<^verbatim>\<open>task\<close> followed by its position among the converted
  entries.  When no item supplies an id, the ids are pairwise distinct and none is
  empty.  The code has no check of supplied ids against each other.
\<close>

theorem planner_task_ids:
  assumes fin: "planner_finish w state (JObj kvs) = Returns state'"
    and ts: "dict_get kvs ''tasks'' = Some (JArr items)"
  shows "map task_id (tasks state')
           = map (\<lambda>(k, t). supplied_id w t k) (enumerate 0 (dict_items items))
       \<and> ((\<forall>t \<in> set (dict_items items). \<not> dict_has t ''task_id'' \<and> \<not> dict_has t ''id'')
            \<longrightarrow> distinct (map task_id (tasks state')) \<and> [] \<notin> set (map task_id (tasks state')))"
proof -
  let ?conv = "map (\<lambda>(k, t). convert_task w t k) (enumerate 0 (dict_items items))"
  from ts have has: "dict_has kvs ''tasks''"
    using dict_get_None_iff [of kvs "''tasks''"] by auto
  obtain p tl where v: "validate_PlannerOut (dict_set kvs ''tasks'' (JArr ?conv)) = Some (p, tl)"
    and st: "tasks state' = tl"
    using fin has ts
    by (auto simp: planner_finish_def iterate_def convert_tasks_acc [of w items "[]", simplified]
        split: option.splits)
  from v have "those (map validate_Task ?conv) = Some tl"
    by (auto simp: validate_PlannerOut_def dict_get_dict_set split: option.splits json.splits)
  then have "list_all2 (\<lambda>x y. validate_Task x = Some y) ?conv tl"
    by (rule those_map_Some)
  then have "list_all2 (\<lambda>kt y. task_id y = supplied_id w (snd kt) (fst kt))
               (enumerate 0 (dict_items items)) tl"
    by (auto simp: list_all2_map1 elim!: list_all2_mono dest: convert_task_id)
  then have ids: "map task_id tl = map (\<lambda>(k, t). supplied_id w t k) (enumerate 0 (dict_items items))"
    by (induction rule: list_all2_induct) auto
  have "distinct (map task_id tl) \<and> [] \<notin> set (map task_id tl)"
    if no: "\<forall>t \<in> set (dict_items items). \<not> dict_has t ''task_id'' \<and> \<not> dict_has t ''id''"
  proof -
    have "map (\<lambda>(k, t). supplied_id w t k) (enumerate 0 (dict_items items))
            = map (\<lambda>k. ''task'' @ str_nat (k + 1)) [0..<length (dict_items items)]"
    proof (rule nth_equalityI)
      show "length (map (\<lambda>(k, t). supplied_id w t k) (enumerate 0 (dict_items items)))
              = length (map (\<lambda>k. ''task'' @ str_nat (k + 1)) [0..<length (dict_items items)])"
        by simp
    next
      fix i
      assume "i < length (map (\<lambda>(k, t). supplied_id w t k) (enumerate 0 (dict_items items)))"
      then have i: "i < length (dict_items items)" by simp
      then have "dict_items items ! i \<in> set (dict_items items)" by simp
      with no have "\<not> dict_has (dict_items items ! i) ''task_id''"
        and "\<not> dict_has (dict_items items ! i) ''id''" by blast+
      then have "supplied_id w (dict_items items ! i) i = ''task'' @ str_nat (i + 1)"
        by (rule supplied_id_synth)
      with i show "map (\<lambda>(k, t). supplied_id w t k) (enumerate 0 (dict_items items)) ! i
              = map (\<lambda>k. ''task'' @ str_nat (k + 1)) [0..<length (dict_items items)] ! i"
        by (simp add: nth_enumerate_eq)
    qed
    moreover have "distinct (map (\<lambda>k. ''task'' @ str_nat (k + 1)) [0..<n])" for n
      by (auto simp: distinct_map inj_on_def dest: str_nat_inj)
    ultimately show ?thesis
      by (auto simp: ids str_nat_nonempty)
  qed
  with ids st show ?thesis by simp
qed

theorem planner_task_ids_witness:
  "planner_finish plain_world (initial ''r'' ''.'')
       (JObj [(''prd_md'', JStr ''p''),
              (''tasks'', JArr [JObj [(''title'', JStr ''x'')], JInt 3,
                                JObj [(''title'', JStr ''y'')]])])
     = Returns ((initial ''r'' ''.'')\<lparr>prd := ''p'',
          tasks := [\<lparr>task_id = ''task1'', title = ''x''\<rparr>, \<lparr>task_id = ''task2'', title = ''y''\<rparr>],
          logs := [''Planner: PRD+tasks created'']\<rparr>)
   \<and> distinct [''task1'', ''task2'']"
proof -
  let ?items = "[JObj [(''title'', JStr ''x'')], JInt 3, JObj [(''title'', JStr ''y'')]]"
  let ?kvs = "[(''prd_md'', JStr ''p''), (''tasks'', JArr ?items)]"
  let ?s' = "(initial ''r'' ''.'')\<lparr>prd := ''p'',
          tasks := [\<lparr>task_id = ''task1'', title = ''x''\<rparr>, \<lparr>task_id = ''task2'', title = ''y''\<rparr>],
          logs := [''Planner: PRD+tasks created'']\<rparr>"
  have fin: "planner_finish plain_world (initial ''r'' ''.'') (JObj ?kvs) = Returns ?s'"
    by code_simp
  have ts: "dict_get ?kvs ''tasks'' = Some (JArr ?items)"
    by code_simp
  have no: "\<forall>t \<in> set (dict_items ?items). \<not> dict_has t ''task_id'' \<and> \<not> dict_has t ''id''"
    by (simp add: dict_has_def)
  from planner_task_ids [OF fin ts] no have "distinct (map task_id (tasks ?s'))"
    by blast
  with fin show ?thesis by simp
qed

text \<open>
  C8 as stated fails: two items with the same supplied id keep it.  The backend
  answers with a plan whose two tasks both have the id \<^verbatim>\<open>a\<close>.
\<close>

theorem planner_duplicate_ids_counterexample:
  \<open>planner_node
      (plain_world\<lparr>chat_planning := (\<lambda>r. Returns
         ''{"prd_md":"p","tasks":[{"id":"a","title":"x"},{"id":"a","title":"y"}]}'')\<rparr>)
      (initial ''r'' ''.'')
    = Returns ((initial ''r'' ''.'')\<lparr>prd := ''p'',
        tasks := [\<lparr>task_id = ''a'', title = ''x''\<rparr>, \<lparr>task_id = ''a'', title = ''y''\<rparr>],
        logs := [''Planner raw response: {"prd_md":"p","tasks":[{"id":"a","title":"x"},{"id":"a","title":"y"}]}...'',
                 ''Planner: PRD+tasks created'']\<rparr>)
   \<and> \<not> distinct [''a'', ''a'']\<close>
  by code_simp

section \<open>Recovery of an embedded payload\<close>

text \<open>
  C4 (as amended).  Let the raw text be \<open>pre @ payload @ post\<close>, not decodable as a
  whole, where the payload decodes, begins with \<^verbatim>\<open>{\<close> and ends with \<^verbatim>\<open>}\<close>, \<open>pre\<close>
  holds no \<^verbatim>\<open>{\<close> and \<open>post\<close> holds no \<^verbatim>\<open>}\<close>.  Then the text from the first \<^verbatim>\<open>{\<close>
  to the last \<^verbatim>\<open>}\<close> is the payload itself, and the router and the planner go on with
  the data that decoding the payload gives.  This holds whatever \<^verbatim>\<open>json.loads\<close> is.
\<close>

theorem brace_extraction:
  assumes bad: "json_loads w (pre @ payload @ post) = None"
    and good: "json_loads w payload = Some data"
    and pre: "CHR 0x7B \<notin> set pre" and post: "CHR 0x7D \<notin> set post"
    and ne: "payload \<noteq> []" and op: "hd payload = CHR 0x7B"
    and cl: "last payload = CHR 0x7D"
  shows "py_slice (pre @ payload @ post)
           (str_find (pre @ payload @ post) (CHR 0x7B))
           (str_rfind (pre @ payload @ post) (CHR 0x7D) + 1) = payload
       \<and> route_parse w (pre @ payload @ post) = Returns data
       \<and> fst (planner_parse w req (pre @ payload @ post)) = data"
proof -
  note ex = extraction_embedded [OF pre post ne op cl]
  have sl: "py_slice (pre @ payload @ post)
           (str_find (pre @ payload @ post) (CHR 0x7B))
           (str_rfind (pre @ payload @ post) (CHR 0x7D) + 1) = payload"
    unfolding ex by (rule py_slice_middle)
  have st: "str_find (pre @ payload @ post) (CHR 0x7B) \<noteq> -1"
    unfolding ex by simp
  have sp: "str_rfind (pre @ payload @ post) (CHR 0x7D) + 1 \<noteq> 0"
    unfolding ex using ne by (cases payload) auto
  have r: "route_parse w (pre @ payload @ post) = Returns data"
    unfolding route_parse_def Let_def sl using bad good by simp
  have p: "fst (planner_parse w req (pre @ payload @ post)) = data"
    unfolding planner_parse_def Let_def sl using bad good st sp by simp
  from sl r p show ?thesis by simp
qed


theorem brace_extraction_witness:
  \<open>route_parse plain_world (''Here is the plan: '' @ ''{"intent":"plan"}'' @ '' Thanks.'')
     = Returns (JObj [(''intent'', JStr ''plan'')])
   \<and> fst (planner_parse plain_world ''r''
          (''Here is the plan: '' @ ''{"intent":"plan"}'' @ '' Thanks.''))
     = JObj [(''intent'', JStr ''plan'')]\<close>
proof -
  have bad: \<open>json_loads plain_world
      (''Here is the plan: '' @ ''{"intent":"plan"}'' @ '' Thanks.'') = None\<close>
    by code_simp
  have good: \<open>json_loads plain_world ''{"intent":"plan"}''
      = Some (JObj [(''intent'', JStr ''plan'')])\<close>
    by code_simp
  have pre: "CHR 0x7B \<notin> set ''Here is the plan: ''" by simp
  have post: "CHR 0x7D \<notin> set '' Thanks.''" by simp
  have ne: \<open>''{"intent":"plan"}'' \<noteq> []\<close> by simp
  have op: \<open>hd ''{"intent":"plan"}'' = CHR 0x7B\<close> by simp
  have cl: \<open>last ''{"intent":"plan"}'' = CHR 0x7D\<close> by simp
  from brace_extraction [OF bad good pre post ne op cl, of "''r''"]
  show ?thesis by blast
qed

text \<open>
  C4 as stated fails when the prose around the payload holds a brace: the extracted
  text then starts in the prose.  Here the whole text does not decode, the payload
  does, the extracted text is longer than the payload and does not decode; the
  router raises and the planner takes its fallback, which is not the payload's data.
\<close>

theorem brace_extraction_counterexample:
  \<open>json_decode (''Use {braces}: '' @ ''{"intent":"plan"}'' @ []) = None
   \<and> json_decode ''{"intent":"plan"}'' = Some (JObj [(''intent'', JStr ''plan'')])
   \<and> py_slice (''Use {braces}: '' @ ''{"intent":"plan"}'' @ [])
        (str_find (''Use {braces}: '' @ ''{"intent":"plan"}'' @ []) (CHR 0x7B))
        (str_rfind (''Use {braces}: '' @ ''{"intent":"plan"}'' @ []) (CHR 0x7D) + 1)
      = ''{braces}: {"intent":"plan"}''
   \<and> route_parse plain_world (''Use {braces}: '' @ ''{"intent":"plan"}'' @ [])
      = Raises (Exn JSONDecodeError ''Expecting value'')
   \<and> fst (planner_parse plain_world ''r'' (''Use {braces}: '' @ ''{"intent":"plan"}'' @ []))
      = fallback_data ''r''
   \<and> fallback_data ''r'' \<noteq> JObj [(''intent'', JStr ''plan'')]\<close>
  by code_simp

section \<open>Recovery from malformed output\<close>




section \<open>The analyzer does not see ignored directories\<close>



section \<open>What the verification steps change\<close>




section \<open>Dispatch without a provider or without the tool\<close>




section \<open>The audit the security step runs\<close>

text \<open>
  C6 does not hold of the code.  On a Rust crate the analyzer detects \<^verbatim>\<open>rust\<close> and
  the dispatcher \<^verbatim>\<open>run_security_audit\<close> would run \<^verbatim>\<open>cargo audit\<close> (exit 0 here),
  but the security step calls \<^verbatim>\<open>run_pip_audit\<close>: it runs \<^verbatim>\<open>pip-audit\<close>, records
  its exit code 1 and sets \<^verbatim>\<open>sec_ok\<close> to false.
\<close>

theorem security_step_language_blind:
  "primary_language (analyze_project_structure rust_world ''.'') = ''rust''
   \<and> run_security_audit rust_world ''.'' (analyze_project_structure rust_world ''.'')
       = Returns (0, ''no vulnerabilities found'')
   \<and> security_node rust_world (initial ''r'' ''.'')
       = Returns ((initial ''r'' ''.'')\<lparr>sec_ok := False,
           logs := [''pip-audit: exit=1\<newline>2 known vulnerabilities'']\<rparr>)"
  by code_simp


section \<open>A child process that never exits\<close>

text \<open>
  C7 does not hold of the security-audit path.  \<^verbatim>\<open>run\<close> of tools/shell.py passes no
  timeout, so when the audit tool never exits the security step never returns, and
  neither does the dispatcher \<^verbatim>\<open>run_security_audit\<close>.  The tests step, whose
  providers pass timeouts of 60 to 180 seconds, returns in the same world.
\<close>

theorem security_step_blocks:
  "security_node hung_world (initial ''r'' ''.'') = Hangs
   \<and> run_security_audit hung_world ''.'' (analyze_project_structure hung_world ''.'') = Hangs
   \<and> tests_node hung_world (initial ''r'' ''.'')
       = Returns ((initial ''r'' ''.'')\<lparr>lint_ok := False, tests_ok := False,
           logs := [''Linter (go): exit=1\<newline>Error running Go linting: timed out after 60 seconds'',
                    ''Tests (go): exit=1\<newline>Error running Go tests: timed out after 120 seconds'']\<rparr>)"
  by code_simp

section \<open>The retry ceiling\<close>

text \<open>
  C1.  A step that returns leaves the attempt counter as it was, except the implement
  step, which adds exactly 1; the routing functions do not change it; so over any run
  that ends in a state the counter has not decreased.  With 3 or more attempts, the
  routing after the tests step gives the security step and the routing after the
  security step gives the pull-request step, whatever the flags are: neither gives
  the implement step.
\<close>

theorem retry_ceiling:
  "(\<forall>s'. exec_node w n s = Returns s' \<longrightarrow>
        get_dev_attempts s' = (if n = Dev then get_dev_attempts s + 1 else get_dev_attempts s))
   \<and> get_dev_attempts (snd (tests_next s)) = get_dev_attempts s
   \<and> get_dev_attempts (snd (sec_next s)) = get_dev_attempts s
   \<and> (\<forall>trace s'. run_graph ws fuel k n s = Some (trace, Returns s')
         \<longrightarrow> get_dev_attempts s \<le> get_dev_attempts s')
   \<and> (3 \<le> get_dev_attempts s
         \<longrightarrow> fst (tests_next s) = Security \<and> fst (sec_next s) = Pr
           \<and> fst (tests_next s) \<noteq> Dev \<and> fst (sec_next s) \<noteq> Dev)"
proof -
  have a: "get_dev_attempts s' = (if n = Dev then get_dev_attempts s + 1 else get_dev_attempts s)"
    if "exec_node w n s = Returns s'" for s'
    using that by (rule exec_node_attempts)
  have b: "get_dev_attempts (snd (tests_next s)) = get_dev_attempts s"
    using next_node_attempts [of Tests s] by simp
  have c: "get_dev_attempts (snd (sec_next s)) = get_dev_attempts s"
    using next_node_attempts [of Security s] by simp
  have d: "get_dev_attempts s \<le> get_dev_attempts s'"
    if "run_graph ws fuel k n s = Some (trace, Returns s')" for trace s'
    using that by (rule run_graph_monotone)
  have e: "fst (tests_next s) = Security \<and> fst (sec_next s) = Pr
           \<and> fst (tests_next s) \<noteq> Dev \<and> fst (sec_next s) \<noteq> Dev"
    if "3 \<le> get_dev_attempts s"
    using that by (simp add: tests_next_def sec_next_def)
  from a b c d e show ?thesis by blast
qed

theorem retry_ceiling_witness:
  "exec_node plain_world Dev (initial ''r'' ''.'')
     = Returns ((initial ''r'' ''.'')\<lparr>branch := ''feat/auto-agent'', dev_attempts := Some 1,
         logs := [''Dev: Starting development (attempt 1)'']\<rparr>)
   \<and> get_dev_attempts ((initial ''r'' ''.'')\<lparr>branch := ''feat/auto-agent'', dev_attempts := Some 1,
         logs := [''Dev: Starting development (attempt 1)'']\<rparr>)
     = get_dev_attempts (initial ''r'' ''.'') + 1
   \<and> 3 \<le> get_dev_attempts ((initial ''r'' ''.'')\<lparr>dev_attempts := Some 3\<rparr>)
   \<and> fst (tests_next ((initial ''r'' ''.'')\<lparr>dev_attempts := Some 3\<rparr>)) = Security
   \<and> fst (sec_next ((initial ''r'' ''.'')\<lparr>dev_attempts := Some 3\<rparr>)) = Pr"
proof -
  let ?s1 = "(initial ''r'' ''.'')\<lparr>branch := ''feat/auto-agent'', dev_attempts := Some 1,
         logs := [''Dev: Starting development (attempt 1)'']\<rparr>"
  let ?s3 = "(initial ''r'' ''.'')\<lparr>dev_attempts := Some 3\<rparr>"
  have ex: "exec_node plain_world Dev (initial ''r'' ''.'') = Returns ?s1"
    by code_simp
  have three: "3 \<le> get_dev_attempts ?s3"
    by (simp add: get_dev_attempts_def)
  from retry_ceiling [of plain_world Dev "initial ''r'' ''.''"] ex
  have inc: "get_dev_attempts ?s1 = get_dev_attempts (initial ''r'' ''.'') + 1"
    by simp
  from retry_ceiling [of _ _ ?s3] three
  have "fst (tests_next ?s3) = Security \<and> fst (sec_next ?s3) = Pr"
    by blast
  with ex inc three show ?thesis by blast
qed

section \<open>Every run ends within twelve step executions\<close>

text \<open>
  C2 (as amended).  A run from \<^verbatim>\<open>plan\<close> on the initial state makes at most
  3 * 3 + 3 = 12 step executions, whatever the steps do: within that bound it has
  reached \<^verbatim>\<open>END\<close> or stopped at a step that raised or blocked.  The nodes executed
  follow the edges of the graph, so every implement entry is followed by the tests
  step, and the security step comes only after a tests step.  When the run ends in a
  state, its last step is \<^verbatim>\<open>pr\<close>, the attempt counter equals the number of implement
  entries and is at most 3.  When no step raises or blocks, the run ends in a state.
\<close>

theorem run_terminates:
  "\<exists>trace r. invoke ws 12 (initial req path) = Some (trace, r)
      \<and> length trace \<le> 12 \<and> hd trace = Plan \<and> successively edge trace
      \<and> (\<forall>s'. r = Returns s' \<longrightarrow>
            last trace = Pr
            \<and> get_dev_attempts s' = int (count_list trace Dev)
            \<and> get_dev_attempts s' \<le> 3)
      \<and> ((\<forall>j m t. returns (exec_node (ws j) m t)) \<longrightarrow> returns r)"
proof -
  have z: "get_dev_attempts (initial req path) = 0"
    by (simp add: get_dev_attempts_def initial_def)
  have "steps_left Plan (get_dev_attempts (initial req path)) \<le> 12"
    by (simp add: z dev_left_def)
  from run_graph_bounded [OF this, of ws 0]
  show ?thesis
    unfolding invoke_def z by (simp add: dev_left_def) blast
qed

theorem run_terminates_witness:
  "(\<forall>j m t. returns (exec_node audit_fails_world m t))
   \<and> (\<exists>trace s'. invoke (\<lambda>k. audit_fails_world) 12 (initial ''r'' ''.'') = Some (trace, Returns s')
         \<and> length trace \<le> 12 \<and> last trace = Pr \<and> get_dev_attempts s' \<le> 3)
   \<and> summary (invoke (\<lambda>k. audit_fails_world) 12 (initial ''r'' ''.''))
       = Some ([Plan, Design, Dev, Tests, Security, Dev, Tests, Security, Dev, Tests,
                Security, Pr], 3, ''pr/1'')"
proof -
  have tot: "\<forall>j m t. returns (exec_node ((\<lambda>k. audit_fails_world) j) m t)"
    by (simp add: audit_fails_world_returns)
  from run_terminates [of "\<lambda>k. audit_fails_world" "''r''" "''.''"] tot
  obtain trace r where run: "invoke (\<lambda>k. audit_fails_world) 12 (initial ''r'' ''.'') = Some (trace, r)"
    and len: "length trace \<le> 12"
    and fin: "\<forall>s'. r = Returns s' \<longrightarrow> last trace = Pr \<and> get_dev_attempts s' \<le> 3"
    and ret: "returns r"
    by blast
  from ret obtain s' where "r = Returns s'" by (rule returnsE)
  with run len fin
  have a: "\<exists>trace s'. invoke (\<lambda>k. audit_fails_world) 12 (initial ''r'' ''.'') = Some (trace, Returns s')
         \<and> length trace \<le> 12 \<and> last trace = Pr \<and> get_dev_attempts s' \<le> 3"
    by blast
  have b: "summary (invoke (\<lambda>k. audit_fails_world) 12 (initial ''r'' ''.''))
       = Some ([Plan, Design, Dev, Tests, Security, Dev, Tests, Security, Dev, Tests,
                Security, Pr], 3, ''pr/1'')"
    by code_simp
  from tot a b show ?thesis by simp
qed

text \<open>
  C2 as stated fails.  When the tests pass and the audit fails every time, each of
  the three implement entries is followed by two verification steps and the run takes
  12 step executions: 10 are not enough.  When the tests fail every time, the first two
  implement entries are followed by one verification step only.
\<close>

theorem ten_steps_counterexample:
  "invoke (\<lambda>k. audit_fails_world) 10 (initial ''r'' ''.'') = None
   \<and> summary (invoke (\<lambda>k. audit_fails_world) 12 (initial ''r'' ''.''))
       = Some ([Plan, Design, Dev, Tests, Security, Dev, Tests, Security, Dev, Tests,
                Security, Pr], 3, ''pr/1'')
   \<and> 10 < length [Plan, Design, Dev, Tests, Security, Dev, Tests, Security, Dev, Tests,
                Security, Pr]
   \<and> summary (invoke (\<lambda>k. failing_go_world) 12 (initial ''r'' ''.''))
       = Some ([Plan, Design, Dev, Tests, Dev, Tests, Dev, Tests, Security, Pr], 3, ''pr/1'')"
  by code_simp

end
